theory Spec2Isabelle
  imports Main "HOL-Library.Product_Lexorder" "HOL-Library.Multiset"
begin

section \<open>Values of a request\<close>

text \<open>
  The server of \<^verbatim>\<open>server.js\<close> reads its input from \<^verbatim>\<open>req.body\<close>, the object
  that \<^verbatim>\<open>express.json()\<close> parsed, and from the path and the query string. A field of
  the body is any JSON value, or \<^verbatim>\<open>undefined\<close> when the key is absent. Numbers are
  the integers: every number the handlers bind goes to an INT column.
\<close>

datatype jsval =
    JUndefined
  | JNull
  | JBool bool
  | JNum int
  | JStr string
  | JArr "jsval list"
  | JObj "(string \<times> jsval) list"

type_synonym body = "string \<rightharpoonup> jsval"

text \<open>Destructuring \<^verbatim>\<open>const { k } = req.body\<close>: an absent key reads \<^verbatim>\<open>undefined\<close>.\<close>

definition field :: "body \<Rightarrow> string \<Rightarrow> jsval" where
  "field b k = (case b k of None \<Rightarrow> JUndefined | Some v \<Rightarrow> v)"

text \<open>The test \<^verbatim>\<open>!v\<close> of the validations is \<open>\<not> truthy v\<close>.\<close>

fun truthy :: "jsval \<Rightarrow> bool" where
  "truthy JUndefined = False"
| "truthy JNull = False"
| "truthy (JBool b) = b"
| "truthy (JNum n) = (n \<noteq> 0)"
| "truthy (JStr s) = (s \<noteq> [])"
| "truthy (JArr xs) = True"
| "truthy (JObj kvs) = True"

fun isArray :: "jsval \<Rightarrow> bool" where
  "isArray (JArr xs) = True"
| "isArray v = False"

text \<open>
  \<^verbatim>\<open>[...].includes(v)\<close> on an array of strings: only a string equal to one of them
  is found.
\<close>

definition array_includes :: "string list \<Rightarrow> jsval \<Rightarrow> bool" where
  "array_includes xs v = (case v of JStr s \<Rightarrow> s \<in> set xs | _ \<Rightarrow> False)"

text \<open>\<^verbatim>\<open>v ?? null\<close>\<close>

definition or_null :: "jsval \<Rightarrow> jsval" where
  "or_null v = (if v = JUndefined \<or> v = JNull then JNull else v)"

text \<open>
  The text a value contributes to a template literal \<^verbatim>\<open>`... ${v} ...`\<close>: decimal
  digits for a number, the elements joined by commas for an array (with nothing for
  \<^verbatim>\<open>null\<close> and \<^verbatim>\<open>undefined\<close> elements).
\<close>

fun decimal :: "nat \<Rightarrow> string" where
  "decimal n =
     (if n < 10 then [char_of (48 + n)]
      else decimal (n div 10) @ [char_of (48 + n mod 10)])"

definition int_text :: "int \<Rightarrow> string" where
  "int_text i = (if i < 0 then CHR ''-'' # decimal (nat (- i)) else decimal (nat i))"

fun join :: "string list \<Rightarrow> string" where
  "join [] = []"
| "join [s] = s"
| "join (s # t # ss) = s @ '','' @ join (t # ss)"

fun to_text :: "jsval \<Rightarrow> string" where
  "to_text JUndefined = ''undefined''"
| "to_text JNull = ''null''"
| "to_text (JBool b) = (if b then ''true'' else ''false'')"
| "to_text (JNum n) = int_text n"
| "to_text (JStr s) = s"
| "to_text (JArr xs) =
     join (map (\<lambda>x. if x = JNull \<or> x = JUndefined then [] else to_text x) xs)"
| "to_text (JObj kvs) = ''[object Object]''"

section \<open>The store\<close>

text \<open>
  The tables of \<^verbatim>\<open>schema.sql\<close>, each a list of rows in insertion order. A DATE is year, month and day, a TIME is hour, minute and second, both
  ordered lexicographically, which is their order in time. The column
  \<^verbatim>\<open>Notification.created_at\<close> (the wall clock of the insert) is left out.
\<close>

type_synonym date = "nat \<times> nat \<times> nat"
type_synonym time = "nat \<times> nat \<times> nat"

record user_row =
  u_user_id :: int
  u_name :: "string option"
  email :: "string option"
  password :: "string option"
  phone :: "string option"
  role :: "string option"

record student_row =
  user_id :: int
  std_id :: int
  department :: "string option"
  semester :: "string option"

record mood_log_row =
  ml_log_id :: int
  ml_std_id :: int
  ml_log_date :: date
  mood_rating :: "int option"
  stress_level :: "int option"
  energy_level :: "int option"
  sleep_quantity :: "int option"
  emotional_status :: "string option"
  ml_notes :: "string option"

record habit_row =
  habit_id :: int
  habit_name :: string
  category :: "string option"

record habit_log_row =
  hl_log_id :: int
  hl_std_id :: int
  hl_habit_id :: int
  hl_log_date :: date
  hl_completed :: int

record appointment_row =
  appoint_id :: int
  ap_std_id :: int
  appointment_type :: string
  professional_name :: string
  appointment_date :: date
  appointment_time :: time
  status :: string
  reason :: "string option"
  session_note :: "string option"

record notification_row =
  n_id :: int
  n_std_id :: int
  msg :: string
  is_read :: int
  appointment_reminder :: int
  mood_reminder :: int
  habit_reminder :: int

text \<open>The four counters are the AUTO_INCREMENT values of the tables that are inserted into.\<close>

record db =
  User :: "user_row list"
  Student :: "student_row list"
  Mood_log :: "mood_log_row list"
  Habit :: "habit_row list"
  Habit_Log :: "habit_log_row list"
  Appointment :: "appointment_row list"
  Notification :: "notification_row list"
  next_mood_id :: int
  next_log_id :: int
  next_appoint_id :: int
  next_n_id :: int

subsection \<open>Binding a parameter to a column\<close>

text \<open>
  Modelled from the spec: the connection pool \<^verbatim>\<open>./db\<close> that \<^verbatim>\<open>server.js\<close> requires
  (a MySQL client) is not among the sources. Its statements get the relational meaning
  of their SQL text over the tables and constraints of \<^verbatim>\<open>schema.sql\<close> (NOT NULL,
  VARCHAR lengths, foreign keys). A bound value is read by the type that the request
  documentation of \<^verbatim>\<open>server.js\<close> gives it: a number for an INT column, a string for
  a text column, a string \<^verbatim>\<open>YYYY-MM-DD\<close> for a DATE and \<^verbatim>\<open>HH:MM\<close> or \<^verbatim>\<open>HH:MM:SS\<close>
  for a TIME (section 6 of the spec); a value of another shape makes the statement fail.
  A statement that fails changes no table.
\<close>

definition digit :: "char \<Rightarrow> nat option" where
  "digit c =
     (let n = (of_char c :: nat) in if 48 \<le> n \<and> n \<le> 57 then Some (n - 48) else None)"

fun digits :: "nat \<Rightarrow> string \<Rightarrow> nat option" where
  "digits acc [] = Some acc"
| "digits acc (c # cs) =
     (case digit c of None \<Rightarrow> None | Some k \<Rightarrow> digits (10 * acc + k) cs)"

definition leap :: "nat \<Rightarrow> bool" where
  "leap y = ((y mod 4 = 0 \<and> y mod 100 \<noteq> 0) \<or> y mod 400 = 0)"

definition days_in_month :: "nat \<Rightarrow> nat \<Rightarrow> nat" where
  "days_in_month y m =
     (if m = 2 then (if leap y then 29 else 28)
      else if m = 4 \<or> m = 6 \<or> m = 9 \<or> m = 11 then 30 else 31)"

definition read_date :: "string \<Rightarrow> date option" where
  "read_date s =
     (if length s = 10 \<and> s ! 4 = CHR ''-'' \<and> s ! 7 = CHR ''-'' then
        (case (digits 0 (take 4 s), digits 0 (take 2 (drop 5 s)), digits 0 (drop 8 s)) of
           (Some y, Some m, Some d) \<Rightarrow>
             if 1 \<le> m \<and> m \<le> 12 \<and> 1 \<le> d \<and> d \<le> days_in_month y m
             then Some (y, m, d) else None
         | _ \<Rightarrow> None)
      else None)"

definition read_time :: "string \<Rightarrow> time option" where
  "read_time s =
     (if (length s = 5 \<or> length s = 8 \<and> s ! 5 = CHR '':'') \<and> s ! 2 = CHR '':'' then
        (case (digits 0 (take 2 s), digits 0 (take 2 (drop 3 s)), digits 0 (drop 6 s)) of
           (Some h, Some m, Some sec) \<Rightarrow>
             if h \<le> 23 \<and> m \<le> 59 \<and> sec \<le> 59 then Some (h, m, sec) else None
         | _ \<Rightarrow> None)
      else None)"

definition bind_int :: "jsval \<Rightarrow> string + int" where
  "bind_int v =
     (case v of
        JNum n \<Rightarrow> Inr n
      | JUndefined \<Rightarrow> Inl ''Bind parameters must not contain undefined''
      | JNull \<Rightarrow> Inl ''Column cannot be null''
      | _ \<Rightarrow> Inl ''Incorrect integer value'')"

definition bind_date :: "jsval \<Rightarrow> string + date" where
  "bind_date v =
     (case v of
        JStr s \<Rightarrow> (case read_date s of Some d \<Rightarrow> Inr d | None \<Rightarrow> Inl ''Incorrect date value'')
      | JUndefined \<Rightarrow> Inl ''Bind parameters must not contain undefined''
      | JNull \<Rightarrow> Inl ''Column cannot be null''
      | _ \<Rightarrow> Inl ''Incorrect date value'')"

definition bind_time :: "jsval \<Rightarrow> string + time" where
  "bind_time v =
     (case v of
        JStr s \<Rightarrow> (case read_time s of Some t \<Rightarrow> Inr t | None \<Rightarrow> Inl ''Incorrect time value'')
      | JUndefined \<Rightarrow> Inl ''Bind parameters must not contain undefined''
      | JNull \<Rightarrow> Inl ''Column cannot be null''
      | _ \<Rightarrow> Inl ''Incorrect time value'')"

text \<open>A NOT NULL text column of at most \<open>n\<close> characters, and a TEXT column that may be NULL.\<close>

definition bind_varchar :: "nat \<Rightarrow> jsval \<Rightarrow> string + string" where
  "bind_varchar n v =
     (case v of
        JStr s \<Rightarrow> if length s \<le> n then Inr s else Inl ''Data too long for column''
      | JUndefined \<Rightarrow> Inl ''Bind parameters must not contain undefined''
      | JNull \<Rightarrow> Inl ''Column cannot be null''
      | _ \<Rightarrow> Inl ''Incorrect string value'')"

definition bind_text_null :: "jsval \<Rightarrow> string + string option" where
  "bind_text_null v =
     (case v of
        JStr s \<Rightarrow> if length s \<le> 65535 then Inr (Some s) else Inl ''Data too long for column''
      | JNull \<Rightarrow> Inr None
      | JUndefined \<Rightarrow> Inl ''Bind parameters must not contain undefined''
      | _ \<Rightarrow> Inl ''Incorrect string value'')"

text \<open>An INT column and a text column of at most \<open>n\<close> characters that may be NULL.\<close>

definition bind_int_null :: "jsval \<Rightarrow> string + int option" where
  "bind_int_null v =
     (case v of
        JNum n \<Rightarrow> Inr (Some n)
      | JNull \<Rightarrow> Inr None
      | JUndefined \<Rightarrow> Inl ''Bind parameters must not contain undefined''
      | _ \<Rightarrow> Inl ''Incorrect integer value'')"

definition bind_varchar_null :: "nat \<Rightarrow> jsval \<Rightarrow> string + string option" where
  "bind_varchar_null n v =
     (case v of
        JStr s \<Rightarrow> if length s \<le> n then Inr (Some s) else Inl ''Data too long for column''
      | JNull \<Rightarrow> Inr None
      | JUndefined \<Rightarrow> Inl ''Bind parameters must not contain undefined''
      | _ \<Rightarrow> Inl ''Incorrect string value'')"

subsection \<open>The statements of the handlers\<close>

text \<open>A statement either fails with the store's message or returns its rows and the new tables.\<close>

type_synonym 'a statement = "db \<Rightarrow> string + 'a \<times> db"

text \<open>\<^verbatim>\<open>DELETE FROM Habit_Log WHERE std_id = ? AND log_date = ?\<close>\<close>

definition delete_habit_log :: "jsval \<Rightarrow> jsval \<Rightarrow> unit statement" where
  "delete_habit_log p_std p_date d =
     (case bind_int p_std of Inl e \<Rightarrow> Inl e | Inr s \<Rightarrow>
      case bind_date p_date of Inl e \<Rightarrow> Inl e | Inr dt \<Rightarrow>
        Inr ((), d\<lparr>Habit_Log :=
                    filter (\<lambda>r. \<not> (hl_std_id r = s \<and> hl_log_date r = dt)) (Habit_Log d)\<rparr>))"

text \<open>
  \<^verbatim>\<open>INSERT INTO Habit_Log (std_id, habit_id, log_date, completed) VALUES (?, ?, ?, 1)\<close>,
  under the two foreign keys of the table.
\<close>

definition insert_habit_log :: "jsval \<Rightarrow> jsval \<Rightarrow> jsval \<Rightarrow> unit statement" where
  "insert_habit_log p_std p_hid p_date d =
     (case bind_int p_std of Inl e \<Rightarrow> Inl e | Inr s \<Rightarrow>
      case bind_int p_hid of Inl e \<Rightarrow> Inl e | Inr h \<Rightarrow>
      case bind_date p_date of Inl e \<Rightarrow> Inl e | Inr dt \<Rightarrow>
        if s \<notin> set (map std_id (Student d)) \<or> h \<notin> set (map habit_id (Habit d))
        then Inl ''Cannot add or update a child row: a foreign key constraint fails''
        else Inr ((), d\<lparr>Habit_Log := Habit_Log d @
                           [\<lparr>hl_log_id = next_log_id d, hl_std_id = s, hl_habit_id = h,
                             hl_log_date = dt, hl_completed = 1\<rparr>],
                         next_log_id := next_log_id d + 1\<rparr>))"

text \<open>\<^verbatim>\<open>SELECT habit_id, completed FROM Habit_Log WHERE std_id = ? AND log_date = ?\<close>\<close>

definition select_habit_log :: "jsval \<Rightarrow> jsval \<Rightarrow> (int \<times> int) list statement" where
  "select_habit_log p_std p_date d =
     (case bind_int p_std of Inl e \<Rightarrow> Inl e | Inr s \<Rightarrow>
      case bind_date p_date of Inl e \<Rightarrow> Inl e | Inr dt \<Rightarrow>
        Inr (map (\<lambda>r. (hl_habit_id r, hl_completed r))
               (filter (\<lambda>r. hl_std_id r = s \<and> hl_log_date r = dt) (Habit_Log d)), d))"

text \<open>
  \<^verbatim>\<open>INSERT INTO Appointment (std_id, appointment_type, professional_name,
  appointment_date, appointment_time, reason, status) VALUES (?, ?, ?, ?, ?, ?, 'Pending')\<close>
\<close>

definition insert_appointment ::
  "jsval \<Rightarrow> jsval \<Rightarrow> jsval \<Rightarrow> jsval \<Rightarrow> jsval \<Rightarrow> jsval \<Rightarrow> unit statement" where
  "insert_appointment p_std p_type p_name p_date p_time p_reason d =
     (case bind_int p_std of Inl e \<Rightarrow> Inl e | Inr s \<Rightarrow>
      case bind_varchar 50 p_type of Inl e \<Rightarrow> Inl e | Inr ty \<Rightarrow>
      case bind_varchar 100 p_name of Inl e \<Rightarrow> Inl e | Inr nm \<Rightarrow>
      case bind_date p_date of Inl e \<Rightarrow> Inl e | Inr dt \<Rightarrow>
      case bind_time p_time of Inl e \<Rightarrow> Inl e | Inr tm \<Rightarrow>
      case bind_text_null p_reason of Inl e \<Rightarrow> Inl e | Inr rs \<Rightarrow>
        if s \<notin> set (map std_id (Student d))
        then Inl ''Cannot add or update a child row: a foreign key constraint fails''
        else Inr ((), d\<lparr>Appointment := Appointment d @
                           [\<lparr>appoint_id = next_appoint_id d, ap_std_id = s,
                             appointment_type = ty, professional_name = nm,
                             appointment_date = dt, appointment_time = tm,
                             status = ''Pending'', reason = rs, session_note = None\<rparr>],
                         next_appoint_id := next_appoint_id d + 1\<rparr>))"

text \<open>
  \<^verbatim>\<open>INSERT INTO Notification (std_id, msg, is_read, appointment_reminder, mood_reminder,
  habit_reminder) VALUES (?, ?, 0, 1, 0, 0)\<close>
\<close>

definition insert_notification :: "jsval \<Rightarrow> jsval \<Rightarrow> unit statement" where
  "insert_notification p_std p_msg d =
     (case bind_int p_std of Inl e \<Rightarrow> Inl e | Inr s \<Rightarrow>
      case bind_varchar 255 p_msg of Inl e \<Rightarrow> Inl e | Inr m \<Rightarrow>
        if s \<notin> set (map std_id (Student d))
        then Inl ''Cannot add or update a child row: a foreign key constraint fails''
        else Inr ((), d\<lparr>Notification := Notification d @
                           [\<lparr>n_id = next_n_id d, n_std_id = s, msg = m, is_read = 0,
                             appointment_reminder = 1, mood_reminder = 0,
                             habit_reminder = 0\<rparr>],
                         next_n_id := next_n_id d + 1\<rparr>))"

text \<open>
  \<^verbatim>\<open>SELECT * FROM Appointment WHERE std_id = ?
  ORDER BY appointment_date DESC, appointment_time DESC\<close>
\<close>

definition order_by_desc :: "('a \<Rightarrow> 'k::linorder) \<Rightarrow> 'a list \<Rightarrow> 'a list" where
  "order_by_desc k rows = rev (sort_key k rows)"

definition select_appointments :: "jsval \<Rightarrow> appointment_row list statement" where
  "select_appointments p_std d =
     (case bind_int p_std of Inl e \<Rightarrow> Inl e | Inr s \<Rightarrow>
        Inr (order_by_desc (\<lambda>r. (appointment_date r, appointment_time r))
               (filter (\<lambda>r. ap_std_id r = s) (Appointment d)), d))"

text \<open>\<^verbatim>\<open>UPDATE Appointment SET status = ? WHERE appoint_id = ?\<close>\<close>

definition update_appointment_status :: "jsval \<Rightarrow> jsval \<Rightarrow> unit statement" where
  "update_appointment_status p_status p_id d =
     (case bind_varchar 30 p_status of Inl e \<Rightarrow> Inl e | Inr st \<Rightarrow>
      case bind_int p_id of Inl e \<Rightarrow> Inl e | Inr i \<Rightarrow>
        Inr ((), d\<lparr>Appointment :=
                    map (\<lambda>r. if appoint_id r = i then r\<lparr>status := st\<rparr> else r)
                      (Appointment d)\<rparr>))"

text \<open>\<^verbatim>\<open>SELECT 1 AS result\<close>, read as \<^verbatim>\<open>rows[0].result\<close>\<close>

definition select_one :: "int statement" where
  "select_one d = Inr (1, d)"

text \<open>
  \<^verbatim>\<open>INSERT INTO Mood_log (std_id, log_date, mood_rating, stress_level, energy_level,
  sleep_quantity, emotional_status, notes) VALUES (?, ?, ?, ?, ?, ?, ?, ?)\<close>
\<close>

definition insert_mood_log ::
  "jsval \<Rightarrow> jsval \<Rightarrow> jsval \<Rightarrow> jsval \<Rightarrow> jsval \<Rightarrow> jsval \<Rightarrow> jsval \<Rightarrow> jsval \<Rightarrow> unit statement" where
  "insert_mood_log p_std p_date p_mood p_stress p_energy p_sleep p_emotion p_notes d =
     (case bind_int p_std of Inl e \<Rightarrow> Inl e | Inr s \<Rightarrow>
      case bind_date p_date of Inl e \<Rightarrow> Inl e | Inr dt \<Rightarrow>
      case bind_int_null p_mood of Inl e \<Rightarrow> Inl e | Inr mo \<Rightarrow>
      case bind_int_null p_stress of Inl e \<Rightarrow> Inl e | Inr st \<Rightarrow>
      case bind_int_null p_energy of Inl e \<Rightarrow> Inl e | Inr en \<Rightarrow>
      case bind_int_null p_sleep of Inl e \<Rightarrow> Inl e | Inr sl \<Rightarrow>
      case bind_varchar_null 100 p_emotion of Inl e \<Rightarrow> Inl e | Inr em \<Rightarrow>
      case bind_text_null p_notes of Inl e \<Rightarrow> Inl e | Inr no \<Rightarrow>
        if s \<notin> set (map std_id (Student d))
        then Inl ''Cannot add or update a child row: a foreign key constraint fails''
        else Inr ((), d\<lparr>Mood_log := Mood_log d @
                           [\<lparr>ml_log_id = next_mood_id d, ml_std_id = s, ml_log_date = dt,
                             mood_rating = mo, stress_level = st, energy_level = en,
                             sleep_quantity = sl, emotional_status = em, ml_notes = no\<rparr>],
                         next_mood_id := next_mood_id d + 1\<rparr>))"

text \<open>\<^verbatim>\<open>SELECT * FROM Mood_log WHERE std_id = ? ORDER BY log_date DESC\<close>\<close>

definition select_mood_log :: "jsval \<Rightarrow> mood_log_row list statement" where
  "select_mood_log p_std d =
     (case bind_int p_std of Inl e \<Rightarrow> Inl e | Inr s \<Rightarrow>
        Inr (order_by_desc ml_log_date (filter (\<lambda>r. ml_std_id r = s) (Mood_log d)), d))"

text \<open>\<^verbatim>\<open>SELECT habit_id, habit_name, category FROM Habit ORDER BY habit_id\<close>\<close>

definition select_habits :: "habit_row list statement" where
  "select_habits d = Inr (sort_key habit_id (Habit d), d)"

text \<open>\<^verbatim>\<open>SELECT * FROM Appointment WHERE appointment_date = ? ORDER BY appointment_time\<close>\<close>

definition select_appointments_on :: "jsval \<Rightarrow> appointment_row list statement" where
  "select_appointments_on p_date d =
     (case bind_date p_date of Inl e \<Rightarrow> Inl e | Inr dt \<Rightarrow>
        Inr (sort_key appointment_time
               (filter (\<lambda>r. appointment_date r = dt) (Appointment d)), d))"

text \<open>
  \<^verbatim>\<open>SELECT COUNT(*) AS count FROM Student\<close>,
  \<^verbatim>\<open>SELECT COUNT(*) AS count FROM User WHERE role = 'professional'\<close> (the comparison
  of the store's default collation does not tell upper from lower case) and
  \<^verbatim>\<open>SELECT COUNT(*) AS count FROM Appointment\<close>
\<close>

definition lower_case :: "string \<Rightarrow> string" where
  "lower_case cs =
     map (\<lambda>c. let n = (of_char c :: nat) in if 65 \<le> n \<and> n \<le> 90 then char_of (n + 32) else c) cs"

definition count_students :: "int statement" where
  "count_students d = Inr (int (length (Student d)), d)"

definition count_professionals :: "int statement" where
  "count_professionals d =
     Inr (int (length (filter (\<lambda>u. map_option lower_case (role u) = Some ''professional'')
                         (User d))), d)"

definition count_appointments :: "int statement" where
  "count_appointments d = Inr (int (length (Appointment d)), d)"

text \<open>\<^verbatim>\<open>SELECT * FROM Notification WHERE std_id = ? ORDER BY n_id DESC\<close>\<close>

definition select_notifications :: "jsval \<Rightarrow> notification_row list statement" where
  "select_notifications p_std d =
     (case bind_int p_std of Inl e \<Rightarrow> Inl e | Inr s \<Rightarrow>
        Inr (order_by_desc n_id (filter (\<lambda>r. n_std_id r = s) (Notification d)), d))"

text \<open>\<^verbatim>\<open>UPDATE Notification SET is_read = 1 WHERE n_id = ?\<close>\<close>

definition update_notification_read :: "jsval \<Rightarrow> unit statement" where
  "update_notification_read p_id d =
     (case bind_int p_id of Inl e \<Rightarrow> Inl e | Inr i \<Rightarrow>
        Inr ((), d\<lparr>Notification :=
                    map (\<lambda>r. if n_id r = i then r\<lparr>is_read := 1\<rparr> else r) (Notification d)\<rparr>))"

subsection \<open>\<^verbatim>\<open>pool.execute\<close>\<close>

text \<open>
  Besides the failures a statement has by its own parameters, the store can fail for
  reasons outside the request (the server is unreachable, a connection is lost). These
  are scripted in \<open>faults\<close>: one entry per statement still to come, \<open>Some m\<close> when the
  store rejects that statement with message \<open>m\<close> before it touches a table. An empty
  script means that no such failure happens.
\<close>

record world =
  faults :: "string option list"
  store :: db

definition execute :: "'a statement \<Rightarrow> world \<Rightarrow> (string + 'a) \<times> world" where
  "execute q w =
     (case faults w of
        Some m # fs \<Rightarrow> (Inl m, w\<lparr>faults := fs\<rparr>)
      | fs \<Rightarrow>
          (case q (store w) of
             Inl m \<Rightarrow> (Inl m, w\<lparr>faults := tl fs\<rparr>)
           | Inr (a, d) \<Rightarrow> (Inr a, w\<lparr>faults := tl fs, store := d\<rparr>)))"

section \<open>The handlers of \<^verbatim>\<open>server.js\<close>\<close>

text \<open>
  What a handler leaves behind: a response it sent (status and JSON body); a rejection
  of its promise, when an exception escaped the handler before it sent anything; or a
  call of \<^verbatim>\<open>next()\<close>, which hands the request to the next handler registered for the
  route. \<open>Page\<close> is a page of the framework's own, with the text it shows.
\<close>

datatype payload =
    Message string
  | HealthOk int
  | HealthError string
  | MoodLogRows "mood_log_row list"
  | HabitRows "habit_row list"
  | HabitLogRows "(int \<times> int) list"
  | AppointmentRows "appointment_row list"
  | NotificationRows "notification_row list"
  | Stats int int int
  | Page string

datatype outcome =
    Sent nat payload
  | Rejected string
  | Passed

subsection \<open>\<^verbatim>\<open>GET /health\<close>\<close>

definition get_health :: "world \<Rightarrow> outcome \<times> world" where
  "get_health w =
     (case execute select_one w of
        (Inl m, w') \<Rightarrow> (Sent 500 (HealthError m), w')
      | (Inr result, w') \<Rightarrow> (Sent 200 (HealthOk result), w'))"

subsection \<open>\<^verbatim>\<open>POST /mood-log\<close> and \<^verbatim>\<open>GET /mood-log/:std_id\<close>\<close>

definition post_mood_log :: "body \<Rightarrow> world \<Rightarrow> outcome \<times> world" where
  "post_mood_log b w =
     (let p_std = field b ''std_id''; log_date = field b ''log_date'' in
      if \<not> truthy p_std \<or> \<not> truthy log_date
      then (Sent 400 (Message ''std_id and log_date are required''), w)
      else
        (case execute (insert_mood_log p_std log_date
                 (or_null (field b ''mood_rating'')) (or_null (field b ''stress_level''))
                 (or_null (field b ''energy_level'')) (or_null (field b ''sleep_quantity''))
                 (or_null (field b ''emotional_status'')) (or_null (field b ''notes''))) w of
           (Inl m, w') \<Rightarrow> (Sent 500 (Message m), w')
         | (Inr u, w') \<Rightarrow> (Sent 201 (Message ''Mood log saved''), w')))"

definition get_mood_log :: "int \<Rightarrow> world \<Rightarrow> outcome \<times> world" where
  "get_mood_log p_std w =
     (case execute (select_mood_log (JNum p_std)) w of
        (Inl m, w') \<Rightarrow> (Sent 500 (Message m), w')
      | (Inr rows, w') \<Rightarrow> (Sent 200 (MoodLogRows rows), w'))"

subsection \<open>\<^verbatim>\<open>GET /habits\<close>\<close>

definition get_habits :: "world \<Rightarrow> outcome \<times> world" where
  "get_habits w =
     (case execute select_habits w of
        (Inl m, w') \<Rightarrow> (Sent 500 (Message m), w')
      | (Inr rows, w') \<Rightarrow> (Sent 200 (HabitRows rows), w'))"

subsection \<open>\<^verbatim>\<open>POST /habit-log\<close>\<close>

text \<open>The loop \<^verbatim>\<open>for (const hid of habit_ids) await pool.execute(insertSql, ...)\<close>;
  \<open>Some m\<close> is the exception that leaves it.\<close>

fun insert_habit_ids :: "jsval \<Rightarrow> jsval \<Rightarrow> jsval list \<Rightarrow> world \<Rightarrow> string option \<times> world" where
  "insert_habit_ids p_std p_date [] w = (None, w)"
| "insert_habit_ids p_std p_date (hid # hids) w =
     (case execute (insert_habit_log p_std hid p_date) w of
        (Inl m, w') \<Rightarrow> (Some m, w')
      | (Inr u, w') \<Rightarrow> insert_habit_ids p_std p_date hids w')"

definition post_habit_log :: "body \<Rightarrow> world \<Rightarrow> outcome \<times> world" where
  "post_habit_log b w =
     (let p_std = field b ''std_id''; habit_ids = field b ''habit_ids'';
          log_date = field b ''log_date'' in
      if \<not> truthy p_std \<or> \<not> isArray habit_ids \<or> \<not> truthy log_date
      then (Sent 400 (Message ''std_id, habit_ids[], and log_date are required''), w)
      else
        (case execute (delete_habit_log p_std log_date) w of
           (Inl m, w1) \<Rightarrow> (Sent 500 (Message m), w1)
         | (Inr u, w1) \<Rightarrow>
             (case insert_habit_ids p_std log_date
                     (case habit_ids of JArr hids \<Rightarrow> hids | _ \<Rightarrow> []) w1 of
                (Some m, w2) \<Rightarrow> (Sent 500 (Message m), w2)
              | (None, w2) \<Rightarrow> (Sent 200 (Message ''Habit log saved''), w2))))"

subsection \<open>\<^verbatim>\<open>GET /habit-log/:std_id\<close>\<close>

text \<open>
  \<open>today\<close> is \<^verbatim>\<open>new Date().toISOString().split("T")[0]\<close>, the date of the server's
  clock. The path segment \<^verbatim>\<open>:std_id\<close> is text that the store compares with an INT
  column by its numeric value; the model takes that number.
\<close>

definition get_habit_log :: "string \<Rightarrow> int \<Rightarrow> jsval \<Rightarrow> world \<Rightarrow> outcome \<times> world" where
  "get_habit_log today p_std q_log_date w =
     (let log_date = (if truthy q_log_date then q_log_date else JStr today) in
      case execute (select_habit_log (JNum p_std) log_date) w of
        (Inl m, w') \<Rightarrow> (Sent 500 (Message m), w')
      | (Inr rows, w') \<Rightarrow> (Sent 200 (HabitLogRows rows), w'))"

subsection \<open>\<^verbatim>\<open>POST /appointments\<close>\<close>

definition post_appointments :: "body \<Rightarrow> world \<Rightarrow> outcome \<times> world" where
  "post_appointments b w =
     (let p_std = field b ''std_id''; p_type = field b ''appointment_type'';
          p_name = field b ''professional_name''; p_date = field b ''appointment_date'';
          p_time = field b ''appointment_time''; p_reason = field b ''reason'' in
      if \<not> truthy p_std \<or> \<not> truthy p_type \<or> \<not> truthy p_name \<or> \<not> truthy p_date
         \<or> \<not> truthy p_time
      then (Sent 400 (Message ''Missing required appointment fields''), w)
      else
        (case execute (insert_appointment p_std p_type p_name p_date p_time (or_null p_reason)) w of
           (Inl m, w1) \<Rightarrow> (Sent 500 (Message m), w1)
         | (Inr u, w1) \<Rightarrow>
             (case execute (insert_notification p_std
                      (JStr (''Appointment booked with '' @ to_text p_name @ '' on ''
                             @ to_text p_date @ '' at '' @ to_text p_time))) w1 of
                (Inl m, w2) \<Rightarrow> (Sent 500 (Message m), w2)
              | (Inr u', w2) \<Rightarrow> (Sent 201 (Message ''Appointment created''), w2))))"

subsection \<open>\<^verbatim>\<open>GET /appointments/:std_id\<close>\<close>

definition get_appointments :: "int \<Rightarrow> world \<Rightarrow> outcome \<times> world" where
  "get_appointments p_std w =
     (case execute (select_appointments (JNum p_std)) w of
        (Inl m, w') \<Rightarrow> (Sent 500 (Message m), w')
      | (Inr rows, w') \<Rightarrow> (Sent 200 (AppointmentRows rows), w'))"

subsection \<open>\<^verbatim>\<open>GET /professional/today\<close> and \<^verbatim>\<open>GET /admin/stats\<close>\<close>

definition get_professional_today :: "string \<Rightarrow> world \<Rightarrow> outcome \<times> world" where
  "get_professional_today today w =
     (case execute (select_appointments_on (JStr today)) w of
        (Inl m, w') \<Rightarrow> (Sent 500 (Message m), w')
      | (Inr rows, w') \<Rightarrow> (Sent 200 (AppointmentRows rows), w'))"

definition get_admin_stats :: "world \<Rightarrow> outcome \<times> world" where
  "get_admin_stats w =
     (case execute count_students w of
        (Inl m, w1) \<Rightarrow> (Sent 500 (Message m), w1)
      | (Inr students, w1) \<Rightarrow>
          (case execute count_professionals w1 of
             (Inl m, w2) \<Rightarrow> (Sent 500 (Message m), w2)
           | (Inr professionals, w2) \<Rightarrow>
               (case execute count_appointments w2 of
                  (Inl m, w3) \<Rightarrow> (Sent 500 (Message m), w3)
                | (Inr appointments, w3) \<Rightarrow>
                    (Sent 200 (Stats students professionals appointments), w3))))"

subsection \<open>\<^verbatim>\<open>GET /notifications/:std_id\<close> and \<^verbatim>\<open>PUT /notifications/read/:n_id\<close>\<close>

definition get_notifications :: "int \<Rightarrow> world \<Rightarrow> outcome \<times> world" where
  "get_notifications p_std w =
     (case execute (select_notifications (JNum p_std)) w of
        (Inl m, w') \<Rightarrow> (Sent 500 (Message m), w')
      | (Inr rows, w') \<Rightarrow> (Sent 200 (NotificationRows rows), w'))"

definition put_notifications_read :: "int \<Rightarrow> world \<Rightarrow> outcome \<times> world" where
  "put_notifications_read p_id w =
     (case execute (update_notification_read (JNum p_id)) w of
        (Inl m, w') \<Rightarrow> (Sent 500 (Message m), w')
      | (Inr u, w') \<Rightarrow> (Sent 200 (Message ''Notification marked as read''), w'))"

subsection \<open>\<^verbatim>\<open>PUT /appointments/status/:id\<close>, registered twice\<close>

text \<open>The first registration has no \<^verbatim>\<open>try\<close>: an exception of the store leaves the handler.\<close>

definition put_appointments_status_id :: "int \<Rightarrow> body \<Rightarrow> world \<Rightarrow> outcome \<times> world" where
  "put_appointments_status_id p_id b w =
     (let p_status = field b ''status'' in
      if \<not> array_includes [''Approved'', ''Cancelled'', ''Completed''] p_status
      then (Sent 400 (Message ''Invalid status''), w)
      else
        (case execute (update_appointment_status p_status (JNum p_id)) w of
           (Inl m, w') \<Rightarrow> (Rejected m, w')
         | (Inr u, w') \<Rightarrow> (Sent 200 (Message ''Status updated''), w')))"

definition allowedStatuses :: "string list" where
  "allowedStatuses = [''Approved'', ''Cancelled'', ''Completed'']"

definition put_appointments_status_appoint_id :: "int \<Rightarrow> body \<Rightarrow> world \<Rightarrow> outcome \<times> world" where
  "put_appointments_status_appoint_id p_id b w =
     (let p_status = field b ''status'' in
      if \<not> array_includes allowedStatuses p_status
      then (Sent 400 (Message ''Invalid status value''), w)
      else
        (case execute (update_appointment_status p_status (JNum p_id)) w of
           (Inl m, w') \<Rightarrow> (Sent 500 (Message m), w')
         | (Inr u, w') \<Rightarrow> (Sent 200 (Message ''Appointment status updated''), w')))"

text \<open>
  Express keeps the handlers of a route in the order of their registration and runs the
  first; a later one runs only when the one before it calls \<^verbatim>\<open>next()\<close>. With no
  handler left the request gets the framework's 404 page.

  What the client gets when the promise of a handler rejects is decided by the
  framework, which is not among the sources and whose version they do not fix. It is the
  parameter \<open>fw\<close>: the outcome of a request whose handler rejected with a given error
  text. No later handler of the route runs in either version.
\<close>

fun dispatch ::
  "(string \<Rightarrow> outcome) \<Rightarrow> (int \<Rightarrow> body \<Rightarrow> world \<Rightarrow> outcome \<times> world) list
     \<Rightarrow> int \<Rightarrow> body \<Rightarrow> world \<Rightarrow> outcome \<times> world" where
  "dispatch fw [] p_id b w = (Sent 404 (Page ''Cannot PUT''), w)"
| "dispatch fw (h # hs) p_id b w =
     (case h p_id b w of
        (Passed, w') \<Rightarrow> dispatch fw hs p_id b w'
      | (Rejected m, w') \<Rightarrow> (fw m, w')
      | r \<Rightarrow> r)"

definition put_appointments_status ::
  "(string \<Rightarrow> outcome) \<Rightarrow> int \<Rightarrow> body \<Rightarrow> world \<Rightarrow> outcome \<times> world" where
  "put_appointments_status fw =
     dispatch fw [put_appointments_status_id, put_appointments_status_appoint_id]"

text \<open>
  A framework for the closed examples: Express 5 hands the error to its default error
  handler, which answers 500 with a page that shows the error. (Express 4 does nothing
  with the promise of a handler, and the request stays unanswered.)
\<close>

definition error_page :: "string \<Rightarrow> outcome" where
  "error_page m = Sent 500 (Page m)"

section \<open>Requests in sequence\<close>

text \<open>The routes of \<^verbatim>\<open>server.js\<close>, as the requests a client can send one after another.\<close>

datatype request =
    GetHealth
  | PostMoodLog body
  | GetMoodLog int
  | GetHabits
  | GetHabitLog int jsval
  | PostHabitLog body
  | PostAppointments body
  | GetAppointments int
  | GetProfessionalToday
  | GetAdminStats
  | GetNotifications int
  | PutNotificationsRead int
  | PutAppointmentsStatus int body

fun serve :: "(string \<Rightarrow> outcome) \<Rightarrow> string \<Rightarrow> request \<Rightarrow> world \<Rightarrow> outcome \<times> world" where
  "serve fw today GetHealth w = get_health w"
| "serve fw today (PostMoodLog b) w = post_mood_log b w"
| "serve fw today (GetMoodLog p_std) w = get_mood_log p_std w"
| "serve fw today GetHabits w = get_habits w"
| "serve fw today (GetHabitLog p_std q) w = get_habit_log today p_std q w"
| "serve fw today (PostHabitLog b) w = post_habit_log b w"
| "serve fw today (PostAppointments b) w = post_appointments b w"
| "serve fw today (GetAppointments p_std) w = get_appointments p_std w"
| "serve fw today GetProfessionalToday w = get_professional_today today w"
| "serve fw today GetAdminStats w = get_admin_stats w"
| "serve fw today (GetNotifications p_std) w = get_notifications p_std w"
| "serve fw today (PutNotificationsRead p_id) w = put_notifications_read p_id w"
| "serve fw today (PutAppointmentsStatus p_id b) w = put_appointments_status fw p_id b w"

fun serve_all ::
  "(string \<Rightarrow> outcome) \<Rightarrow> string \<Rightarrow> request list \<Rightarrow> world \<Rightarrow> outcome list \<times> world" where
  "serve_all fw today [] w = ([], w)"
| "serve_all fw today (r # rs) w =
     (case serve fw today r w of (out, w1) \<Rightarrow>
        (case serve_all fw today rs w1 of (outs, w2) \<Rightarrow> (out # outs, w2)))"

text \<open>A \<^verbatim>\<open>POST /habit-log\<close> that the store interrupted: it answered 500.\<close>

fun interrupted :: "request \<Rightarrow> outcome \<Rightarrow> bool" where
  "interrupted (PostHabitLog b) (Sent c p) = (c = 500)"
| "interrupted r out = False"

text \<open>A \<^verbatim>\<open>POST /habit-log\<close> whose body names the student \<open>s\<close> and the day \<open>dt\<close>.\<close>

fun targets :: "request \<Rightarrow> int \<Rightarrow> date \<Rightarrow> bool" where
  "targets (PostHabitLog b) s dt =
     (field b ''std_id'' = JNum s
      \<and> (case field b ''log_date'' of JStr d \<Rightarrow> read_date d = Some dt | _ \<Rightarrow> False))"
| "targets r s dt = False"

text \<open>
  Whether, at the end of a run, the last word on the rows of \<open>s\<close> and \<open>dt\<close> was an
  interrupted submission: one for them was answered 500 and none for them was answered
  200 after it. \<open>u\<close> says whether that was so before the run.
\<close>

fun unsettled :: "request list \<Rightarrow> outcome list \<Rightarrow> int \<Rightarrow> date \<Rightarrow> bool \<Rightarrow> bool" where
  "unsettled (r # rs) (out # outs) s dt u =
     unsettled rs outs s dt
       (if targets r s dt \<and> interrupted r out then True
        else if targets r s dt \<and> out = Sent 200 (Message ''Habit log saved'') then False
        else u)"
| "unsettled rs outs s dt u = u"

section \<open>What the spec speaks about\<close>

text \<open>The habit ids of the rows of \<^verbatim>\<open>Habit_Log\<close> for a student and a date, in table order.\<close>

definition completed :: "db \<Rightarrow> int \<Rightarrow> date \<Rightarrow> int list" where
  "completed d s dt =
     map hl_habit_id (filter (\<lambda>r. hl_std_id r = s \<and> hl_log_date r = dt) (Habit_Log d))"

text \<open>
  Following the spec's words (section 4.2, \<^verbatim>\<open>setCompletedForDate(studentId, date,
  habitIds)\<close>): the submission a body carries, when it names a student, a date and a
  sequence of habit ids.
\<close>

fun int_list :: "jsval list \<Rightarrow> int list option" where
  "int_list [] = Some []"
| "int_list (JNum n # vs) = map_option ((#) n) (int_list vs)"
| "int_list (v # vs) = None"

definition submission :: "body \<Rightarrow> (int \<times> date \<times> int list) option" where
  "submission b =
     (case (field b ''std_id'', field b ''log_date'', field b ''habit_ids'') of
        (JNum s, JStr d, JArr hids) \<Rightarrow>
          (case (read_date d, int_list hids) of
             (Some dt, Some hs) \<Rightarrow> if s = 0 then None else Some (s, dt, hs)
           | _ \<Rightarrow> None)
      | _ \<Rightarrow> None)"

text \<open>
  Following the spec's words (section 3, HabitLogEntry): the habits most recently
  submitted as completed by student \<open>s\<close> for the day \<open>dt\<close> in a sequence of requests, \<open>cur\<close>
  being what stood before the sequence.
\<close>

fun latest :: "request list \<Rightarrow> int \<Rightarrow> date \<Rightarrow> int list \<Rightarrow> int list" where
  "latest [] s dt cur = cur"
| "latest (PostHabitLog b # rs) s dt cur =
     latest rs s dt
       (case submission b of
          Some (s', dt', hs) \<Rightarrow> if s' = s \<and> dt' = dt then hs else cur
        | None \<Rightarrow> cur)"
| "latest (r # rs) s dt cur = latest rs s dt cur"

text \<open>The rows that a loop over the ids \<open>hs\<close> appends, numbered from \<open>n\<close>.\<close>

fun new_rows :: "int \<Rightarrow> date \<Rightarrow> int \<Rightarrow> int list \<Rightarrow> habit_log_row list" where
  "new_rows s dt n [] = []"
| "new_rows s dt n (h # hs) =
     \<lparr>hl_log_id = n, hl_std_id = s, hl_habit_id = h, hl_log_date = dt, hl_completed = 1\<rparr>
       # new_rows s dt (n + 1) hs"

text \<open>The status code of a response, if one was sent.\<close>

fun code :: "outcome \<Rightarrow> nat option" where
  "code (Sent c p) = Some c"
| "code out = None"






section \<open>The store after \<^verbatim>\<open>schema.sql\<close>\<close>

text \<open>
  The seed rows of \<^verbatim>\<open>schema.sql\<close>: the sample user, student 101, the five habits and
  one notification. The seed row of \<^verbatim>\<open>Mood_log\<close> is dated by the day the script ran
  (\<^verbatim>\<open>CURDATE()\<close>) and is left out; its id is counted.
\<close>

definition seed :: db where
  "seed =
     \<lparr>User = [\<lparr>u_user_id = 1, u_name = Some ''Sample Student'',
               email = Some ''sample@student.com'', password = Some ''demo'',
               phone = Some ''0000000000'', role = Some ''student''\<rparr>],
      Student = [\<lparr>user_id = 1, std_id = 101, department = Some ''CSE'', semester = Some ''5''\<rparr>],
      Mood_log = [],
      Habit =
        [\<lparr>habit_id = 1, habit_name = ''Sleep before 12 AM'', category = Some ''Sleep''\<rparr>,
         \<lparr>habit_id = 2, habit_name = ''Exercise / Walk'', category = Some ''Fitness''\<rparr>,
         \<lparr>habit_id = 3, habit_name = ''Drink enough water'', category = Some ''Lifestyle''\<rparr>,
         \<lparr>habit_id = 4, habit_name = ''Study 2 hours'', category = Some ''Academic''\<rparr>,
         \<lparr>habit_id = 5, habit_name = ''Pray or Meditate'', category = Some ''Spiritual''\<rparr>],
      Habit_Log = [],
      Appointment = [],
      Notification =
        [\<lparr>n_id = 1, n_std_id = 101, msg = ''Welcome to Campus Wellness!'', is_read = 0,
          appointment_reminder = 0, mood_reminder = 0, habit_reminder = 0\<rparr>],
      next_mood_id = 2, next_log_id = 1, next_appoint_id = 1, next_n_id = 2\<rparr>"

text \<open>A world in which the store fails for no outside reason.\<close>

definition calm :: "db \<Rightarrow> world" where
  "calm d = \<lparr>faults = [], store = d\<rparr>"

section \<open>Properties\<close>

subsection \<open>Auxiliary facts: the store\<close>

lemma execute_calm:
  "faults w = [] \<Longrightarrow>
   execute q w =
     (case q (store w) of Inl m \<Rightarrow> (Inl m, w) | Inr (a, d) \<Rightarrow> (Inr a, w\<lparr>store := d\<rparr>))"
  by (simp add: execute_def split: sum.splits prod.splits)

lemma bind_int_Inr: "bind_int v = Inr n \<longleftrightarrow> v = JNum n"
  by (cases v) (simp_all add: bind_int_def)

lemma bind_date_Inr: "bind_date v = Inr dt \<longleftrightarrow> (\<exists>s. v = JStr s \<and> read_date s = Some dt)"
  by (cases v) (auto simp: bind_date_def split: option.splits)

lemma execute_Inr:
  "execute q w = (Inr a, w') \<Longrightarrow> \<exists>d. q (store w) = Inr (a, d) \<and> store w' = d"
  by (auto simp: execute_def split: list.splits option.splits sum.splits)

lemma execute_frame:
  assumes "execute q w = (r, w')"
    and "\<And>d a d'. q d = Inr (a, d') \<Longrightarrow> Habit_Log d' = Habit_Log d"
  shows "Habit_Log (store w') = Habit_Log (store w)"
proof (cases "q (store w)")
  case (Inl m)
  with assms(1) show ?thesis
    by (auto simp: execute_def split: list.splits option.splits)
next
  case (Inr p)
  obtain a d' where p: "p = (a, d')" by (cases p)
  with Inr assms(2) have "Habit_Log d' = Habit_Log (store w)" by simp
  with Inr p assms(1) show ?thesis
    by (auto simp: execute_def split: list.splits option.splits)
qed

lemma insert_appointment_frame:
  "insert_appointment a1 a2 a3 a4 a5 a6 d = Inr (a, d') \<Longrightarrow> Habit_Log d' = Habit_Log d"
  by (auto simp: insert_appointment_def split: sum.splits if_splits)

lemma insert_notification_frame:
  "insert_notification a1 a2 d = Inr (a, d') \<Longrightarrow> Habit_Log d' = Habit_Log d"
  by (auto simp: insert_notification_def split: sum.splits if_splits)

lemma select_appointments_frame:
  "select_appointments a1 d = Inr (a, d') \<Longrightarrow> Habit_Log d' = Habit_Log d"
  by (auto simp: select_appointments_def split: sum.splits)

lemma select_habit_log_frame:
  "select_habit_log a1 a2 d = Inr (a, d') \<Longrightarrow> Habit_Log d' = Habit_Log d"
  by (auto simp: select_habit_log_def split: sum.splits)

lemma update_appointment_status_frame:
  "update_appointment_status a1 a2 d = Inr (a, d') \<Longrightarrow> Habit_Log d' = Habit_Log d"
  by (auto simp: update_appointment_status_def split: sum.splits)

lemma insert_mood_log_frame:
  "insert_mood_log a1 a2 a3 a4 a5 a6 a7 a8 d = Inr (a, d') \<Longrightarrow> Habit_Log d' = Habit_Log d"
  by (auto simp: insert_mood_log_def split: sum.splits if_splits)

lemma select_mood_log_frame:
  "select_mood_log a1 d = Inr (a, d') \<Longrightarrow> Habit_Log d' = Habit_Log d"
  by (auto simp: select_mood_log_def split: sum.splits)

lemma select_appointments_on_frame:
  "select_appointments_on a1 d = Inr (a, d') \<Longrightarrow> Habit_Log d' = Habit_Log d"
  by (auto simp: select_appointments_on_def split: sum.splits)

lemma select_notifications_frame:
  "select_notifications a1 d = Inr (a, d') \<Longrightarrow> Habit_Log d' = Habit_Log d"
  by (auto simp: select_notifications_def split: sum.splits)

lemma update_notification_read_frame:
  "update_notification_read a1 d = Inr (a, d') \<Longrightarrow> Habit_Log d' = Habit_Log d"
  by (auto simp: update_notification_read_def split: sum.splits)

lemma reading_frame:
  "select_one d = Inr (a, d') \<Longrightarrow> Habit_Log d' = Habit_Log d"
  "select_habits d = Inr (hs, d') \<Longrightarrow> Habit_Log d' = Habit_Log d"
  "count_students d = Inr (a, d') \<Longrightarrow> Habit_Log d' = Habit_Log d"
  "count_professionals d = Inr (a, d') \<Longrightarrow> Habit_Log d' = Habit_Log d"
  "count_appointments d = Inr (a, d') \<Longrightarrow> Habit_Log d' = Habit_Log d"
  by (auto simp: select_one_def select_habits_def count_students_def count_professionals_def
        count_appointments_def)

lemma execute_Inl: "execute q w = (Inl m, w') \<Longrightarrow> store w' = store w"
  by (auto simp: execute_def split: list.splits option.splits sum.splits)

lemma read_date_length: "read_date s = Some d \<Longrightarrow> length s = 10"
  by (simp add: read_date_def split: if_splits)

lemma read_time_length: "read_time s = Some t \<Longrightarrow> length s = 5 \<or> length s = 8"
  by (auto simp: read_time_def split: if_splits)

lemma read_date_nonempty: "read_date s = Some d \<Longrightarrow> s \<noteq> []"
  by (auto simp: read_date_def)

lemma date_example: "read_date ''2026-01-06'' = Some (2026, 1, 6)"
  by (simp add: read_date_def digit_def days_in_month_def leap_def)

text \<open>The definitions that evaluate a statement on concrete parameters.\<close>

lemmas evaluation =
  field_def calm_def seed_def execute_def bind_int_def bind_date_def bind_time_def
  bind_varchar_def bind_text_null_def read_date_def read_time_def digit_def days_in_month_def
  leap_def or_null_def

subsection \<open>Auxiliary facts: the status route\<close>

lemma update_status_outcome:
  "fst (put_appointments_status_id i b w) \<noteq> Passed"
  by (simp add: put_appointments_status_id_def Let_def split: prod.splits sum.splits)

lemma route_settled:
  "put_appointments_status fw i b w =
     (case put_appointments_status_id i b w of (Rejected m, w') \<Rightarrow> (fw m, w') | r \<Rightarrow> r)"
proof -
  obtain out w' where r: "put_appointments_status_id i b w = (out, w')"
    by (cases "put_appointments_status_id i b w")
  with update_status_outcome [of i b w] have "out \<noteq> Passed" by simp
  with r show ?thesis
    by (cases out) (simp_all add: put_appointments_status_def)
qed

lemma route_sent:
  assumes "put_appointments_status_id i b w = (Sent c p, w')"
  shows "put_appointments_status fw i b w = (Sent c p, w')"
  using assms by (simp add: route_settled)

text \<open>The first handler of the status route has no \<^verbatim>\<open>catch\<close>; the second has.\<close>

lemma first_handler_rejects:
  assumes "array_includes [''Approved'', ''Cancelled'', ''Completed''] (field b ''status'')"
    and "execute (update_appointment_status (field b ''status'') (JNum i)) w = (Inl m, w')"
  shows "put_appointments_status_id i b w = (Rejected m, w')"
    and "put_appointments_status_appoint_id i b w = (Sent 500 (Message m), w')"
    and "put_appointments_status fw i b w = (fw m, w')"
  using assms
  by (simp_all add: route_settled put_appointments_status_id_def
        put_appointments_status_appoint_id_def allowedStatuses_def)

subsection \<open>Auxiliary facts: failing statements\<close>



lemma array_includes_iff:
  "array_includes [''Approved'', ''Cancelled'', ''Completed''] v \<longleftrightarrow>
   v \<in> {JStr ''Approved'', JStr ''Cancelled'', JStr ''Completed''}"
  by (cases v) (auto simp: array_includes_def)

lemma update_nobody:
  assumes "i \<notin> set (map appoint_id (Appointment d))"
  shows "update_appointment_status (JStr st) (JNum i) d
         = (if length st \<le> 30 then Inr ((), d) else Inl ''Data too long for column'')"
proof -
  have "map (\<lambda>r. if appoint_id r = i then r\<lparr>status := st\<rparr> else r) (Appointment d) = Appointment d"
    using assms by (intro map_idI) auto
  then show ?thesis
    by (simp add: update_appointment_status_def bind_varchar_def bind_int_def)
qed

subsection \<open>Auxiliary facts: listing appointments\<close>

lemma order_by_desc_mset: "mset (order_by_desc k rows) = mset rows"
  by (simp add: order_by_desc_def)

lemma order_by_desc_sorted:
  "sorted_wrt (\<lambda>a b. k b \<le> k a) (order_by_desc k rows)"
proof -
  have "sorted (map k (sort_key k rows))" by (rule sorted_sort_key)
  then have "sorted_wrt (\<lambda>a b. k a \<le> k b) (sort_key k rows)"
    by (simp add: sorted_wrt_map)
  then show ?thesis
    by (simp add: order_by_desc_def sorted_wrt_rev)
qed

subsection \<open>Auxiliary facts: the habit log\<close>

lemma new_rows_mine:
  "filter (\<lambda>r. hl_std_id r = s \<and> hl_log_date r = dt) (new_rows s dt n hs) = new_rows s dt n hs"
  by (induction hs arbitrary: n) simp_all

lemma new_rows_others:
  "s' \<noteq> s \<or> dt' \<noteq> dt \<Longrightarrow>
   filter (\<lambda>r. hl_std_id r = s' \<and> hl_log_date r = dt') (new_rows s dt n hs) = []"
  by (induction hs arbitrary: n) auto

lemma new_rows_ids: "map hl_habit_id (new_rows s dt n hs) = hs"
  by (induction hs arbitrary: n) simp_all

lemma new_rows_selected:
  "map (\<lambda>r. (hl_habit_id r, hl_completed r)) (new_rows s dt n hs) = map (\<lambda>h. (h, 1)) hs"
  by (induction hs arbitrary: n) simp_all

text \<open>The loop, when it ends without an exception.\<close>

lemma insert_habit_ids_done:
  assumes "insert_habit_ids (JNum s) (JStr d) hids w = (None, w')" and "read_date d = Some dt"
  shows "\<exists>hs. int_list hids = Some hs
     \<and> Habit_Log (store w') = Habit_Log (store w) @ new_rows s dt (next_log_id (store w)) hs"
  using assms
proof (induction hids arbitrary: w)
  case Nil
  then show ?case by simp
next
  case (Cons hid hids)
  from Cons.prems(1) obtain u w1 where
    step: "execute (insert_habit_log (JNum s) hid (JStr d)) w = (Inr u, w1)"
    and rest: "insert_habit_ids (JNum s) (JStr d) hids w1 = (None, w')"
    by (auto split: prod.splits sum.splits)
  from execute_Inr [OF step] have ins: "insert_habit_log (JNum s) hid (JStr d) (store w) = Inr (u, store w1)"
    by auto
  then obtain h where hid: "hid = JNum h"
    by (cases hid) (auto simp: insert_habit_log_def bind_int_def)
  from ins hid Cons.prems(2) have "store w1 =
      (store w)\<lparr>Habit_Log := Habit_Log (store w) @
                   [\<lparr>hl_log_id = next_log_id (store w), hl_std_id = s, hl_habit_id = h,
                     hl_log_date = dt, hl_completed = 1\<rparr>],
                 next_log_id := next_log_id (store w) + 1\<rparr>"
    by (auto simp: insert_habit_log_def bind_int_def bind_date_def split: if_splits)
  then have w1:
    "Habit_Log (store w1) = Habit_Log (store w) @
       [\<lparr>hl_log_id = next_log_id (store w), hl_std_id = s, hl_habit_id = h,
         hl_log_date = dt, hl_completed = 1\<rparr>]"
    "next_log_id (store w1) = next_log_id (store w) + 1"
    by simp_all
  from Cons.IH [OF rest Cons.prems(2)] obtain hs where
    hs: "int_list hids = Some hs"
    "Habit_Log (store w') = Habit_Log (store w1) @ new_rows s dt (next_log_id (store w1)) hs"
    by blast
  with hid w1 show ?case by simp
qed

text \<open>The loop over catalogued habits of a registered student, in a calm world.\<close>

lemma insert_habit_ids_calm:
  assumes "faults w = []" and "read_date d = Some dt"
    and "s \<in> set (map std_id (Student (store w)))"
    and "set hs \<subseteq> set (map habit_id (Habit (store w)))"
  shows "\<exists>w'. insert_habit_ids (JNum s) (JStr d) (map JNum hs) w = (None, w') \<and> faults w' = []"
  using assms
proof (induction hs arbitrary: w)
  case Nil
  then show ?case by simp
next
  case (Cons h hs)
  let ?d1 = "(store w)\<lparr>Habit_Log := Habit_Log (store w) @
                 [\<lparr>hl_log_id = next_log_id (store w), hl_std_id = s, hl_habit_id = h,
                   hl_log_date = dt, hl_completed = 1\<rparr>],
               next_log_id := next_log_id (store w) + 1\<rparr>"
  have step: "execute (insert_habit_log (JNum s) (JNum h) (JStr d)) w = (Inr (), w\<lparr>store := ?d1\<rparr>)"
    using Cons.prems
    by (simp add: execute_calm insert_habit_log_def bind_int_def bind_date_def)
  have "\<exists>w'. insert_habit_ids (JNum s) (JStr d) (map JNum hs) (w\<lparr>store := ?d1\<rparr>) = (None, w')
          \<and> faults w' = []"
    using Cons.prems by (intro Cons.IH) simp_all
  with step show ?case by simp
qed

lemma submission_Some:
  "submission b = Some (s, dt, hs) \<longleftrightarrow>
     (\<exists>d hids. field b ''std_id'' = JNum s \<and> s \<noteq> 0 \<and> field b ''log_date'' = JStr d
        \<and> read_date d = Some dt \<and> field b ''habit_ids'' = JArr hids \<and> int_list hids = Some hs)"
  by (auto simp: submission_def split: jsval.splits option.splits)

lemma submission_None_invalid:
  assumes "\<not> truthy (field b ''std_id'') \<or> \<not> isArray (field b ''habit_ids'')
           \<or> \<not> truthy (field b ''log_date'')"
  shows "submission b = None"
proof (cases "submission b")
  case None
  then show ?thesis .
next
  case (Some t)
  obtain s dt hs where "t = (s, dt, hs)" by (cases t)
  with Some assms show ?thesis
    by (auto simp: submission_Some dest: read_date_nonempty)
qed

lemma delete_habit_log_Inr:
  assumes "delete_habit_log p_std p_date d = Inr (u, d')"
  shows "\<exists>s ds dt. p_std = JNum s \<and> p_date = JStr ds \<and> read_date ds = Some dt
     \<and> d' = d\<lparr>Habit_Log := filter (\<lambda>r. \<not> (hl_std_id r = s \<and> hl_log_date r = dt)) (Habit_Log d)\<rparr>"
proof -
  from assms obtain s where s: "bind_int p_std = Inr s"
    by (auto simp: delete_habit_log_def split: sum.splits)
  with assms obtain dt where dt: "bind_date p_date = Inr dt"
    by (auto simp: delete_habit_log_def split: sum.splits)
  from assms s dt have
    "d' = d\<lparr>Habit_Log := filter (\<lambda>r. \<not> (hl_std_id r = s \<and> hl_log_date r = dt)) (Habit_Log d)\<rparr>"
    by (simp add: delete_habit_log_def)
  moreover from s have "p_std = JNum s" by (simp add: bind_int_Inr)
  moreover from dt obtain ds where "p_date = JStr ds" "read_date ds = Some dt"
    by (auto simp: bind_date_Inr)
  ultimately show ?thesis by blast
qed

lemma post_habit_log_cases:
  assumes "post_habit_log b w = (out, w')"
  shows "(out = Sent 400 (Message ''std_id, habit_ids[], and log_date are required'')
            \<and> w' = w \<and> submission b = None)
       \<or> (\<exists>m. out = Sent 500 (Message m))
       \<or> (out = Sent 200 (Message ''Habit log saved'')
            \<and> (\<exists>s dt hs. submission b = Some (s, dt, hs)
                 \<and> Habit_Log (store w') =
                     filter (\<lambda>r. \<not> (hl_std_id r = s \<and> hl_log_date r = dt)) (Habit_Log (store w))
                     @ new_rows s dt (next_log_id (store w)) hs))"
proof (cases "\<not> truthy (field b ''std_id'') \<or> \<not> isArray (field b ''habit_ids'')
              \<or> \<not> truthy (field b ''log_date'')")
  case True
  with assms submission_None_invalid [OF True] show ?thesis
    by (auto simp: post_habit_log_def)
next
  case False
  then obtain hids where hids: "field b ''habit_ids'' = JArr hids"
    by (cases "field b ''habit_ids''") auto
  obtain r1 w1 where del: "execute (delete_habit_log (field b ''std_id'') (field b ''log_date'')) w = (r1, w1)"
    by (cases "execute (delete_habit_log (field b ''std_id'') (field b ''log_date'')) w")
  show ?thesis
  proof (cases r1)
    case (Inl m)
    with assms False del show ?thesis by (auto simp: post_habit_log_def)
  next
    case (Inr u)
    with del have "execute (delete_habit_log (field b ''std_id'') (field b ''log_date'')) w
        = (Inr u, w1)" by simp
    from execute_Inr [OF this] obtain d1 where
      d1: "delete_habit_log (field b ''std_id'') (field b ''log_date'') (store w) = Inr (u, d1)"
        "store w1 = d1"
      by auto
    from delete_habit_log_Inr [OF d1(1)] obtain s ds dt where
      std: "field b ''std_id'' = JNum s" and date: "field b ''log_date'' = JStr ds"
      and dt: "read_date ds = Some dt"
      and deleted: "d1 = (store w)\<lparr>Habit_Log :=
          filter (\<lambda>r. \<not> (hl_std_id r = s \<and> hl_log_date r = dt)) (Habit_Log (store w))\<rparr>"
      by blast
    obtain r2 w2 where loop: "insert_habit_ids (JNum s) (JStr ds) hids w1 = (r2, w2)"
      by (cases "insert_habit_ids (JNum s) (JStr ds) hids w1")
    show ?thesis
    proof (cases r2)
      case (Some m)
      with assms False del Inr loop hids std date show ?thesis
        by (auto simp: post_habit_log_def)
    next
      case None
      with assms False del Inr loop hids std date
      have out: "out = Sent 200 (Message ''Habit log saved'')" and w': "w' = w2"
        by (auto simp: post_habit_log_def)
      from insert_habit_ids_done [OF loop [unfolded None] dt] obtain hs where
        hs: "int_list hids = Some hs"
        "Habit_Log (store w2) = Habit_Log (store w1) @ new_rows s dt (next_log_id (store w1)) hs"
        by blast
      from False std have "s \<noteq> 0" by simp
      with std date dt hids hs(1) have "submission b = Some (s, dt, hs)"
        by (simp add: submission_Some)
      moreover have "Habit_Log (store w') =
          filter (\<lambda>r. \<not> (hl_std_id r = s \<and> hl_log_date r = dt)) (Habit_Log (store w))
          @ new_rows s dt (next_log_id (store w)) hs"
        using hs(2) d1(2) deleted w' by simp
      ultimately show ?thesis using out by blast
    qed
  qed
qed

lemma completed_replaced:
  assumes "Habit_Log d' =
      filter (\<lambda>r. \<not> (hl_std_id r = s \<and> hl_log_date r = dt)) (Habit_Log d) @ new_rows s dt n hs"
  shows "completed d' s' dt' = (if s' = s \<and> dt' = dt then hs else completed d s' dt')"
proof (cases "s' = s \<and> dt' = dt")
  case True
  have "filter (\<lambda>r. hl_std_id r = s \<and> hl_log_date r = dt)
          (filter (\<lambda>r. \<not> (hl_std_id r = s \<and> hl_log_date r = dt)) (Habit_Log d)) = []"
    by (simp add: filter_empty_conv)
  with True assms show ?thesis
    by (simp add: completed_def new_rows_mine new_rows_ids)
next
  case False
  then have other: "s' \<noteq> s \<or> dt' \<noteq> dt" by simp
  have kept: "filter (\<lambda>r. hl_std_id r = s' \<and> hl_log_date r = dt')
          (filter (\<lambda>r. \<not> (hl_std_id r = s \<and> hl_log_date r = dt)) (Habit_Log d))
        = filter (\<lambda>r. hl_std_id r = s' \<and> hl_log_date r = dt') (Habit_Log d)"
    using other by (auto intro: filter_cong)
  have "completed d' s' dt' = completed d s' dt'"
    unfolding completed_def assms filter_append kept new_rows_others [OF other] by simp
  with False show ?thesis by presburger
qed

lemma int_list_numbers: "int_list (map JNum hs) = Some hs"
  by (induction hs) simp_all

lemma post_habit_log_calm:
  assumes std: "field b ''std_id'' = JNum s" "s \<noteq> 0"
    and date: "field b ''log_date'' = JStr d" "read_date d = Some dt"
    and ids: "field b ''habit_ids'' = JArr (map JNum hs)"
    and student: "hs = [] \<or> s \<in> set (map std_id (Student (store w)))"
    and habits: "set hs \<subseteq> set (map habit_id (Habit (store w)))"
    and calm: "faults w = []"
  shows "\<exists>w1. post_habit_log b w = (Sent 200 (Message ''Habit log saved''), w1)
     \<and> faults w1 = []
     \<and> Habit_Log (store w1) =
         filter (\<lambda>r. \<not> (hl_std_id r = s \<and> hl_log_date r = dt)) (Habit_Log (store w))
         @ new_rows s dt (next_log_id (store w)) hs"
proof -
  let ?d1 = "(store w)\<lparr>Habit_Log :=
      filter (\<lambda>r. \<not> (hl_std_id r = s \<and> hl_log_date r = dt)) (Habit_Log (store w))\<rparr>"
  let ?w1 = "w\<lparr>store := ?d1\<rparr>"
  have valid: "truthy (field b ''std_id'')" "isArray (field b ''habit_ids'')"
    "truthy (field b ''log_date'')"
    using std date ids by (auto dest: read_date_nonempty)
  have del: "execute (delete_habit_log (JNum s) (JStr d)) w = (Inr (), ?w1)"
    using calm date by (simp add: execute_calm delete_habit_log_def bind_int_def bind_date_def)
  have "\<exists>w2. insert_habit_ids (JNum s) (JStr d) (map JNum hs) ?w1 = (None, w2) \<and> faults w2 = []"
  proof (cases "hs = []")
    case True
    with calm show ?thesis by simp
  next
    case False
    with student habits calm date show ?thesis
      by (intro insert_habit_ids_calm) simp_all
  qed
  then obtain w2 where
    loop: "insert_habit_ids (JNum s) (JStr d) (map JNum hs) ?w1 = (None, w2)"
    and calm2: "faults w2 = []"
    by blast
  have served: "post_habit_log b w = (Sent 200 (Message ''Habit log saved''), w2)"
    using valid std date ids del loop by (simp add: post_habit_log_def)
  from insert_habit_ids_done [OF loop date(2)] obtain hs' where
    "int_list (map JNum hs) = Some hs'"
    "Habit_Log (store w2) = Habit_Log (store ?w1) @ new_rows s dt (next_log_id (store ?w1)) hs'"
    by blast
  then have "Habit_Log (store w2) =
      filter (\<lambda>r. \<not> (hl_std_id r = s \<and> hl_log_date r = dt)) (Habit_Log (store w))
      @ new_rows s dt (next_log_id (store w)) hs"
    by (simp add: int_list_numbers)
  with served calm2 show ?thesis by blast
qed

lemma get_habit_log_calm:
  assumes "faults w = []" and "read_date d = Some dt"
  shows "get_habit_log today s (JStr d) w =
     (Sent 200 (HabitLogRows (map (\<lambda>r. (hl_habit_id r, hl_completed r))
        (filter (\<lambda>r. hl_std_id r = s \<and> hl_log_date r = dt) (Habit_Log (store w))))), w)"
  using assms
  by (auto simp: get_habit_log_def execute_calm select_habit_log_def bind_int_def bind_date_def
        dest: read_date_nonempty)

lemma replaced_mine:
  "filter (\<lambda>r. hl_std_id r = s \<and> hl_log_date r = dt)
     (filter (\<lambda>r. \<not> (hl_std_id r = s \<and> hl_log_date r = dt)) rows @ new_rows s dt n hs)
   = new_rows s dt n hs"
proof -
  have "filter (\<lambda>r. hl_std_id r = s \<and> hl_log_date r = dt)
          (filter (\<lambda>r. \<not> (hl_std_id r = s \<and> hl_log_date r = dt)) rows) = []"
    by (simp add: filter_empty_conv)
  then show ?thesis
    unfolding filter_append new_rows_mine by simp
qed

text \<open>Requests on the other routes leave \<^verbatim>\<open>Habit_Log\<close> as it is.\<close>

lemma get_habit_log_frame:
  assumes "get_habit_log today s q w = (out, w')"
  shows "Habit_Log (store w') = Habit_Log (store w)"
proof -
  let ?q = "select_habit_log (JNum s) (if truthy q then q else JStr today)"
  obtain r w1 where ex: "execute ?q w = (r, w1)" by (cases "execute ?q w")
  from execute_frame [OF ex select_habit_log_frame] have "Habit_Log (store w1) = Habit_Log (store w)" .
  moreover from assms ex have "w' = w1"
    by (cases r) (auto simp: get_habit_log_def)
  ultimately show ?thesis by simp
qed

lemma get_appointments_frame:
  assumes "get_appointments s w = (out, w')"
  shows "Habit_Log (store w') = Habit_Log (store w)"
proof -
  let ?q = "select_appointments (JNum s)"
  obtain r w1 where ex: "execute ?q w = (r, w1)" by (cases "execute ?q w")
  from execute_frame [OF ex select_appointments_frame] have "Habit_Log (store w1) = Habit_Log (store w)" .
  moreover from assms ex have "w' = w1"
    by (cases r) (auto simp: get_appointments_def)
  ultimately show ?thesis by simp
qed

lemma put_appointments_status_id_frame:
  assumes "put_appointments_status_id i b w = (out, w')"
  shows "Habit_Log (store w') = Habit_Log (store w)"
proof (cases "array_includes [''Approved'', ''Cancelled'', ''Completed''] (field b ''status'')")
  case False
  with assms show ?thesis by (simp add: put_appointments_status_id_def)
next
  case True
  let ?q = "update_appointment_status (field b ''status'') (JNum i)"
  obtain r w1 where ex: "execute ?q w = (r, w1)" by (cases "execute ?q w")
  from execute_frame [OF ex update_appointment_status_frame]
  have "Habit_Log (store w1) = Habit_Log (store w)" .
  moreover from assms ex True have "w' = w1"
    by (cases r) (auto simp: put_appointments_status_id_def)
  ultimately show ?thesis by simp
qed

lemma post_appointments_frame:
  assumes "post_appointments b w = (out, w')"
  shows "Habit_Log (store w') = Habit_Log (store w)"
proof (cases "\<not> truthy (field b ''std_id'') \<or> \<not> truthy (field b ''appointment_type'')
      \<or> \<not> truthy (field b ''professional_name'') \<or> \<not> truthy (field b ''appointment_date'')
      \<or> \<not> truthy (field b ''appointment_time'')")
  case True
  with assms show ?thesis by (auto simp: post_appointments_def)
next
  case False
  let ?q1 = "insert_appointment (field b ''std_id'') (field b ''appointment_type'')
      (field b ''professional_name'') (field b ''appointment_date'')
      (field b ''appointment_time'') (or_null (field b ''reason''))"
  let ?q2 = "insert_notification (field b ''std_id'')
      (JStr (''Appointment booked with '' @ to_text (field b ''professional_name'') @ '' on ''
             @ to_text (field b ''appointment_date'') @ '' at ''
             @ to_text (field b ''appointment_time'')))"
  obtain r1 w1 where ex1: "execute ?q1 w = (r1, w1)" by (cases "execute ?q1 w")
  obtain r2 w2 where ex2: "execute ?q2 w1 = (r2, w2)" by (cases "execute ?q2 w1")
  from execute_frame [OF ex1 insert_appointment_frame]
  have f1: "Habit_Log (store w1) = Habit_Log (store w)" .
  from execute_frame [OF ex2 insert_notification_frame]
  have f2: "Habit_Log (store w2) = Habit_Log (store w1)" .
  from assms False ex1 ex2 have "w' = w1 \<or> w' = w2"
    by (cases r1; cases r2) (auto simp: post_appointments_def)
  with f1 f2 show ?thesis by auto
qed

lemma route_frame:
  assumes "put_appointments_status fw i b w = (out, w')"
  shows "Habit_Log (store w') = Habit_Log (store w)"
proof -
  obtain out1 w1 where h: "put_appointments_status_id i b w = (out1, w1)"
    by (cases "put_appointments_status_id i b w")
  with assms have "w' = w1"
    by (cases out1) (simp_all add: route_settled)
  with put_appointments_status_id_frame [OF h] show ?thesis by simp
qed

lemma get_health_frame:
  assumes "get_health w = (out, w')"
  shows "Habit_Log (store w') = Habit_Log (store w)"
proof -
  obtain r w1 where ex: "execute select_one w = (r, w1)" by (cases "execute select_one w")
  from execute_frame [OF ex reading_frame(1)] have "Habit_Log (store w1) = Habit_Log (store w)" .
  moreover from assms ex have "w' = w1"
    by (cases r) (auto simp: get_health_def)
  ultimately show ?thesis by simp
qed

lemma get_habits_frame:
  assumes "get_habits w = (out, w')"
  shows "Habit_Log (store w') = Habit_Log (store w)"
proof -
  obtain r w1 where ex: "execute select_habits w = (r, w1)" by (cases "execute select_habits w")
  from execute_frame [OF ex reading_frame(2)] have "Habit_Log (store w1) = Habit_Log (store w)" .
  moreover from assms ex have "w' = w1"
    by (cases r) (auto simp: get_habits_def)
  ultimately show ?thesis by simp
qed

lemma post_mood_log_frame:
  assumes "post_mood_log b w = (out, w')"
  shows "Habit_Log (store w') = Habit_Log (store w)"
proof (cases "\<not> truthy (field b ''std_id'') \<or> \<not> truthy (field b ''log_date'')")
  case True
  with assms show ?thesis by (auto simp: post_mood_log_def)
next
  case False
  let ?q = "insert_mood_log (field b ''std_id'') (field b ''log_date'')
      (or_null (field b ''mood_rating'')) (or_null (field b ''stress_level''))
      (or_null (field b ''energy_level'')) (or_null (field b ''sleep_quantity''))
      (or_null (field b ''emotional_status'')) (or_null (field b ''notes''))"
  obtain r w1 where ex: "execute ?q w = (r, w1)" by (cases "execute ?q w")
  from execute_frame [OF ex insert_mood_log_frame]
  have "Habit_Log (store w1) = Habit_Log (store w)" .
  moreover from assms ex False have "w' = w1"
    by (cases r) (auto simp: post_mood_log_def)
  ultimately show ?thesis by simp
qed

lemma get_mood_log_frame:
  assumes "get_mood_log p w = (out, w')"
  shows "Habit_Log (store w') = Habit_Log (store w)"
proof -
  let ?q = "select_mood_log (JNum p)"
  obtain r w1 where ex: "execute ?q w = (r, w1)" by (cases "execute ?q w")
  from execute_frame [OF ex select_mood_log_frame]
  have "Habit_Log (store w1) = Habit_Log (store w)" .
  moreover from assms ex have "w' = w1"
    by (cases r) (auto simp: get_mood_log_def)
  ultimately show ?thesis by simp
qed

lemma get_professional_today_frame:
  assumes "get_professional_today today w = (out, w')"
  shows "Habit_Log (store w') = Habit_Log (store w)"
proof -
  let ?q = "select_appointments_on (JStr today)"
  obtain r w1 where ex: "execute ?q w = (r, w1)" by (cases "execute ?q w")
  from execute_frame [OF ex select_appointments_on_frame]
  have "Habit_Log (store w1) = Habit_Log (store w)" .
  moreover from assms ex have "w' = w1"
    by (cases r) (auto simp: get_professional_today_def)
  ultimately show ?thesis by simp
qed

lemma get_notifications_frame:
  assumes "get_notifications p w = (out, w')"
  shows "Habit_Log (store w') = Habit_Log (store w)"
proof -
  let ?q = "select_notifications (JNum p)"
  obtain r w1 where ex: "execute ?q w = (r, w1)" by (cases "execute ?q w")
  from execute_frame [OF ex select_notifications_frame]
  have "Habit_Log (store w1) = Habit_Log (store w)" .
  moreover from assms ex have "w' = w1"
    by (cases r) (auto simp: get_notifications_def)
  ultimately show ?thesis by simp
qed

lemma put_notifications_read_frame:
  assumes "put_notifications_read p w = (out, w')"
  shows "Habit_Log (store w') = Habit_Log (store w)"
proof -
  let ?q = "update_notification_read (JNum p)"
  obtain r w1 where ex: "execute ?q w = (r, w1)" by (cases "execute ?q w")
  from execute_frame [OF ex update_notification_read_frame]
  have "Habit_Log (store w1) = Habit_Log (store w)" .
  moreover from assms ex have "w' = w1"
    by (cases r) (auto simp: get_notifications_def put_notifications_read_def)
  ultimately show ?thesis by simp
qed

lemma get_admin_stats_frame:
  assumes "get_admin_stats w = (out, w')"
  shows "Habit_Log (store w') = Habit_Log (store w)"
proof -
  obtain r1 w1 where ex1: "execute count_students w = (r1, w1)"
    by (cases "execute count_students w")
  obtain r2 w2 where ex2: "execute count_professionals w1 = (r2, w2)"
    by (cases "execute count_professionals w1")
  obtain r3 w3 where ex3: "execute count_appointments w2 = (r3, w3)"
    by (cases "execute count_appointments w2")
  from execute_frame [OF ex1 reading_frame(3)]
  have f1: "Habit_Log (store w1) = Habit_Log (store w)" .
  from execute_frame [OF ex2 reading_frame(4)]
  have f2: "Habit_Log (store w2) = Habit_Log (store w1)" .
  from execute_frame [OF ex3 reading_frame(5)]
  have f3: "Habit_Log (store w3) = Habit_Log (store w2)" .
  from assms ex1 ex2 ex3 have "w' = w1 \<or> w' = w2 \<or> w' = w3"
    by (cases r1; cases r2; cases r3) (auto simp: get_admin_stats_def)
  with f1 f2 f3 show ?thesis by auto
qed

text \<open>What one request does to the rows of a student and a day.\<close>

lemma insert_habit_ids_appends:
  assumes "insert_habit_ids (JNum s) (JStr d) hids w = (r, w')" and "read_date d = Some dt"
  shows "\<exists>hs. Habit_Log (store w') = Habit_Log (store w) @ new_rows s dt (next_log_id (store w)) hs"
  using assms
proof (induction hids arbitrary: w)
  case Nil
  then have "Habit_Log (store w') = Habit_Log (store w) @ new_rows s dt (next_log_id (store w)) []"
    by simp
  then show ?case by blast
next
  case (Cons hid hids)
  obtain r1 w1 where step: "execute (insert_habit_log (JNum s) hid (JStr d)) w = (r1, w1)"
    by (cases "execute (insert_habit_log (JNum s) hid (JStr d)) w")
  show ?case
  proof (cases r1)
    case (Inl m)
    with step Cons.prems(1) have "w' = w1" by simp
    moreover from step Inl have "store w1 = store w" by (auto dest: execute_Inl)
    ultimately have
      "Habit_Log (store w') = Habit_Log (store w) @ new_rows s dt (next_log_id (store w)) []"
      by simp
    then show ?thesis by blast
  next
    case (Inr u)
    with step Cons.prems(1) have rest: "insert_habit_ids (JNum s) (JStr d) hids w1 = (r, w')"
      by simp
    from step Inr have "execute (insert_habit_log (JNum s) hid (JStr d)) w = (Inr u, w1)" by simp
    from execute_Inr [OF this]
    have ins: "insert_habit_log (JNum s) hid (JStr d) (store w) = Inr (u, store w1)" by auto
    then obtain h where hid: "hid = JNum h"
      by (cases hid) (auto simp: insert_habit_log_def bind_int_def)
    from ins hid Cons.prems(2) have "store w1 =
        (store w)\<lparr>Habit_Log := Habit_Log (store w) @
                     [\<lparr>hl_log_id = next_log_id (store w), hl_std_id = s, hl_habit_id = h,
                       hl_log_date = dt, hl_completed = 1\<rparr>],
                   next_log_id := next_log_id (store w) + 1\<rparr>"
      by (auto simp: insert_habit_log_def bind_int_def bind_date_def split: if_splits)
    then have w1:
      "Habit_Log (store w1) = Habit_Log (store w) @
         [\<lparr>hl_log_id = next_log_id (store w), hl_std_id = s, hl_habit_id = h,
           hl_log_date = dt, hl_completed = 1\<rparr>]"
      "next_log_id (store w1) = next_log_id (store w) + 1"
      by simp_all
    from Cons.IH [OF rest Cons.prems(2)] obtain hs where
      "Habit_Log (store w') = Habit_Log (store w1) @ new_rows s dt (next_log_id (store w1)) hs"
      by blast
    with w1 have
      "Habit_Log (store w') = Habit_Log (store w) @ new_rows s dt (next_log_id (store w)) (h # hs)"
      by simp
    then show ?thesis by blast
  qed
qed

lemma post_habit_log_elsewhere:
  assumes "post_habit_log b w = (out, w')" and "\<not> targets (PostHabitLog b) s dt"
  shows "completed (store w') s dt = completed (store w) s dt"
proof (cases "\<not> truthy (field b ''std_id'') \<or> \<not> isArray (field b ''habit_ids'')
              \<or> \<not> truthy (field b ''log_date'')")
  case True
  with assms(1) have "w' = w" by (auto simp: post_habit_log_def)
  then show ?thesis by simp
next
  case False
  then obtain hids where hids: "field b ''habit_ids'' = JArr hids"
    by (cases "field b ''habit_ids''") auto
  obtain r1 w1 where del:
    "execute (delete_habit_log (field b ''std_id'') (field b ''log_date'')) w = (r1, w1)"
    by (cases "execute (delete_habit_log (field b ''std_id'') (field b ''log_date'')) w")
  show ?thesis
  proof (cases r1)
    case (Inl m)
    with assms(1) False del have "w' = w1" by (auto simp: post_habit_log_def)
    moreover from del Inl have "store w1 = store w" by (auto dest: execute_Inl)
    ultimately show ?thesis by simp
  next
    case (Inr u)
    with del have "execute (delete_habit_log (field b ''std_id'') (field b ''log_date'')) w
        = (Inr u, w1)" by simp
    from execute_Inr [OF this] obtain d1 where
      d1: "delete_habit_log (field b ''std_id'') (field b ''log_date'') (store w) = Inr (u, d1)"
        "store w1 = d1"
      by auto
    from delete_habit_log_Inr [OF d1(1)] obtain s' ds dt' where
      std: "field b ''std_id'' = JNum s'" and date: "field b ''log_date'' = JStr ds"
      and dt': "read_date ds = Some dt'"
      and deleted: "d1 = (store w)\<lparr>Habit_Log :=
          filter (\<lambda>r. \<not> (hl_std_id r = s' \<and> hl_log_date r = dt')) (Habit_Log (store w))\<rparr>"
      by blast
    from assms(2) std date dt' have other: "\<not> (s = s' \<and> dt = dt')" by auto
    obtain r2 w2 where loop: "insert_habit_ids (JNum s') (JStr ds) hids w1 = (r2, w2)"
      by (cases "insert_habit_ids (JNum s') (JStr ds) hids w1")
    from assms(1) False del Inr loop hids std date have w': "w' = w2"
      by (cases r2) (auto simp: post_habit_log_def)
    from insert_habit_ids_appends [OF loop dt'] obtain hs where
      "Habit_Log (store w2) = Habit_Log (store w1) @ new_rows s' dt' (next_log_id (store w1)) hs"
      by blast
    with d1(2) deleted w' have "Habit_Log (store w') =
        filter (\<lambda>r. \<not> (hl_std_id r = s' \<and> hl_log_date r = dt')) (Habit_Log (store w))
        @ new_rows s' dt' (next_log_id (store w)) hs"
      by simp
    from completed_replaced [OF this, of s dt] other show ?thesis by auto
  qed
qed

lemma targets_submission:
  assumes "targets (PostHabitLog b) s dt" and "submission b = Some (s', dt', hs)"
  shows "s' = s \<and> dt' = dt"
  using assms by (auto simp: submission_Some)

lemma submission_targets:
  assumes "submission b = Some (s, dt, hs)"
  shows "targets (PostHabitLog b) s dt"
  using assms by (auto simp: submission_Some)

lemma serve_frame:
  assumes "serve fw today r w = (out, w1)" and "\<And>b. r \<noteq> PostHabitLog b"
  shows "Habit_Log (store w1) = Habit_Log (store w)"
  using assms
  by (cases r)
     (auto dest: get_health_frame post_mood_log_frame get_mood_log_frame get_habits_frame
        get_habit_log_frame post_appointments_frame get_appointments_frame
        get_professional_today_frame get_admin_stats_frame get_notifications_frame
        put_notifications_read_frame route_frame)

lemma serve_step_saved:
  assumes "serve fw today r w = (out, w1)" and "targets r s dt"
    and "out = Sent 200 (Message ''Habit log saved'')"
  shows "completed (store w1) s dt = latest [r] s dt cur"
proof -
  from assms(2) obtain b where r: "r = PostHabitLog b" by (cases r) auto
  with assms(1) have post: "post_habit_log b w = (out, w1)" by simp
  from post_habit_log_cases [OF post] assms(3) obtain s' dt' hs where
    sub: "submission b = Some (s', dt', hs)"
    and log: "Habit_Log (store w1) =
         filter (\<lambda>r. \<not> (hl_std_id r = s' \<and> hl_log_date r = dt')) (Habit_Log (store w))
         @ new_rows s' dt' (next_log_id (store w)) hs"
    by auto
  from targets_submission [OF assms(2) [unfolded r] sub] have same: "s' = s" "dt' = dt" by simp_all
  from completed_replaced [OF log, of s dt] same sub r show ?thesis by simp
qed

lemma serve_step_same:
  assumes "serve fw today r w = (out, w1)"
    and "\<not> (targets r s dt \<and> interrupted r out)"
    and "\<not> (targets r s dt \<and> out = Sent 200 (Message ''Habit log saved''))"
  shows "completed (store w1) s dt = completed (store w) s dt \<and> latest [r] s dt cur = cur"
proof (cases "\<exists>b. r = PostHabitLog b")
  case False
  then have no: "\<And>b. r \<noteq> PostHabitLog b" by blast
  from serve_frame [OF assms(1) no] have "completed (store w1) s dt = completed (store w) s dt"
    by (simp add: completed_def)
  moreover from no have "latest [r] s dt cur = cur" by (cases r) fastforce+
  ultimately show ?thesis by simp
next
  case True
  then obtain b where r: "r = PostHabitLog b" by blast
  with assms(1) have post: "post_habit_log b w = (out, w1)" by simp
  show ?thesis
  proof (cases "targets r s dt")
    case False
    with post r have "completed (store w1) s dt = completed (store w) s dt"
      by (auto dest: post_habit_log_elsewhere)
    moreover have "latest [r] s dt cur = cur"
    proof (cases "submission b")
      case None
      with r show ?thesis by simp
    next
      case (Some t)
      obtain s' dt' hs where t: "t = (s', dt', hs)" by (cases t)
      with Some False r submission_targets [of b s' dt' hs] have "\<not> (s' = s \<and> dt' = dt)"
        by auto
      with Some t r show ?thesis by auto
    qed
    ultimately show ?thesis by simp
  next
    case True
    with assms(2,3) r have "\<not> interrupted (PostHabitLog b) out"
      and "out \<noteq> Sent 200 (Message ''Habit log saved'')" by simp_all
    with post_habit_log_cases [OF post] have "w1 = w" and "submission b = None"
      by auto
    with r show ?thesis by simp
  qed
qed

lemma latest_Cons: "latest (r # rs) s dt cur = latest rs s dt (latest [r] s dt cur)"
  by (cases r) simp_all

subsection \<open>Appointment status\<close>

text \<open>
  Claim C3. For every appointment id and every status value outside Approved, Cancelled
  and Completed (Pending, a number, an absent field), \<^verbatim>\<open>PUT /appointments/status/:id\<close>
  answers 400 and runs no statement: every row of the store is as it was.
\<close>

theorem invalid_status_rejected:
  assumes "field b ''status'' \<notin> {JStr ''Approved'', JStr ''Cancelled'', JStr ''Completed''}"
  shows "put_appointments_status fw i b w = (Sent 400 (Message ''Invalid status''), w)"
  using assms
  by (intro route_sent) (simp add: put_appointments_status_id_def array_includes_iff)

theorem invalid_status_rejected_witness:
  "put_appointments_status error_page 1 [''status'' \<mapsto> JStr ''Pending''] (calm seed)
     = (Sent 400 (Message ''Invalid status''), calm seed)"
  using invalid_status_rejected
    [of "[''status'' \<mapsto> JStr ''Pending'']" error_page 1 "calm seed"]
  by (simp add: field_def)

text \<open>
  Claim C6. For an id that no appointment has and a status among Approved, Cancelled and
  Completed, the route answers 200 and no row changes: a silent no-op. The store is taken
  to raise no failure of its own.
\<close>

theorem unknown_id_is_silent:
  assumes "field b ''status'' \<in> {JStr ''Approved'', JStr ''Cancelled'', JStr ''Completed''}"
    and "i \<notin> set (map appoint_id (Appointment (store w)))"
    and "faults w = []"
  shows "put_appointments_status fw i b w = (Sent 200 (Message ''Status updated''), w)"
  using assms
  by (intro route_sent)
     (auto simp: put_appointments_status_id_def array_includes_iff execute_calm update_nobody)


theorem unknown_id_is_silent_witness:
  "put_appointments_status error_page 7 [''status'' \<mapsto> JStr ''Approved''] (calm seed)
     = (Sent 200 (Message ''Status updated''), calm seed)"
  using unknown_id_is_silent
    [of "[''status'' \<mapsto> JStr ''Approved'']" 7 "calm seed" error_page]
  by (simp add: field_def calm_def seed_def)



text \<open>
  Claim C10. The route has two handlers. Every request is answered from the outcome of
  the first alone: the response it sent or, when its promise rejects, the framework's
  answer to the rejection; the second never runs. Both leave the same store behind, and
  whenever the first sends a response (400 on an invalid status, 200 after the update)
  the second would have sent the same status code; only the texts of their messages
  differ.
\<close>

theorem duplicate_handler_agrees:
  "put_appointments_status fw i b w =
     (case put_appointments_status_id i b w of (Rejected m, w') \<Rightarrow> (fw m, w') | r \<Rightarrow> r)
   \<and> snd (put_appointments_status_id i b w) = snd (put_appointments_status_appoint_id i b w)
   \<and> (\<forall>c p. fst (put_appointments_status_id i b w) = Sent c p \<longrightarrow>
         (\<exists>p'. fst (put_appointments_status_appoint_id i b w) = Sent c p'))"
proof (intro conjI)
  show "put_appointments_status fw i b w =
     (case put_appointments_status_id i b w of (Rejected m, w') \<Rightarrow> (fw m, w') | r \<Rightarrow> r)"
    by (rule route_settled)
  show "snd (put_appointments_status_id i b w) = snd (put_appointments_status_appoint_id i b w)"
    by (simp add: put_appointments_status_id_def put_appointments_status_appoint_id_def
        allowedStatuses_def Let_def split: prod.splits sum.splits)
  show "\<forall>c p. fst (put_appointments_status_id i b w) = Sent c p \<longrightarrow>
         (\<exists>p'. fst (put_appointments_status_appoint_id i b w) = Sent c p')"
    by (simp add: put_appointments_status_id_def put_appointments_status_appoint_id_def
        allowedStatuses_def Let_def split: prod.splits sum.splits)
qed

theorem duplicate_handler_agrees_witness:
  "fst (put_appointments_status_id 1 [''status'' \<mapsto> JStr ''Completed''] (calm seed))
     = Sent 200 (Message ''Status updated'')
   \<and> (\<exists>p'. fst (put_appointments_status_appoint_id 1 [''status'' \<mapsto> JStr ''Completed''] (calm seed))
         = Sent 200 p')"
proof -
  have first: "fst (put_appointments_status_id 1 [''status'' \<mapsto> JStr ''Completed''] (calm seed))
     = Sent 200 (Message ''Status updated'')"
    by (simp add: put_appointments_status_id_def array_includes_def
          update_appointment_status_def evaluation)
  with duplicate_handler_agrees [of error_page 1 "[''status'' \<mapsto> JStr ''Completed'']" "calm seed"]
  show ?thesis by blast
qed

subsection \<open>Creating and listing appointments\<close>

text \<open>
  Claim C5. When a required field (the student, the type, the professional's name, the
  date or the time) is missing from the body, \<^verbatim>\<open>POST /appointments\<close> answers 400 and
  runs no statement: no row is created in any table.
\<close>

theorem missing_field_creates_nothing:
  assumes "b ''std_id'' = None \<or> b ''appointment_type'' = None \<or> b ''professional_name'' = None
           \<or> b ''appointment_date'' = None \<or> b ''appointment_time'' = None"
  shows "post_appointments b w = (Sent 400 (Message ''Missing required appointment fields''), w)"
  using assms by (auto simp: post_appointments_def field_def)

theorem missing_field_creates_nothing_witness:
  "post_appointments
     [''std_id'' \<mapsto> JNum 101, ''appointment_type'' \<mapsto> JStr ''Counselor'',
      ''professional_name'' \<mapsto> JStr ''Dr. Rahman'', ''appointment_date'' \<mapsto> JStr ''2026-01-10'']
     (calm seed)
   = (Sent 400 (Message ''Missing required appointment fields''), calm seed)"
  using missing_field_creates_nothing
    [of "[''std_id'' \<mapsto> JNum 101, ''appointment_type'' \<mapsto> JStr ''Counselor'',
          ''professional_name'' \<mapsto> JStr ''Dr. Rahman'', ''appointment_date'' \<mapsto> JStr ''2026-01-10'']"
        "calm seed"]
  by simp

text \<open>
  Claim C4, amended. \<^verbatim>\<open>POST /appointments\<close> answers 201 and appends exactly one
  Appointment row with status Pending and exactly one Notification row for the student,
  leaving every other table alone, when the body carries: a student id that is a number
  other than 0 and the id of a registered student; a type and a professional's name that
  are non-empty strings of at most 50 and 100 characters; a date \<^verbatim>\<open>YYYY-MM-DD\<close> and a
  time \<^verbatim>\<open>HH:MM\<close> or \<^verbatim>\<open>HH:MM:SS\<close>; a reason that is absent, null or a string of at
  most 65535 characters (the capacity of the TEXT column); and the store raises no
  failure of its own.
\<close>

theorem appointment_created:
  assumes std: "field b ''std_id'' = JNum s" "s \<noteq> 0" "s \<in> set (map std_id (Student (store w)))"
    and ty: "field b ''appointment_type'' = JStr ty" "ty \<noteq> []" "length ty \<le> 50"
    and nm: "field b ''professional_name'' = JStr nm" "nm \<noteq> []" "length nm \<le> 100"
    and dt: "field b ''appointment_date'' = JStr ds" "read_date ds = Some dt"
    and tm: "field b ''appointment_time'' = JStr ts" "read_time ts = Some tm"
    and rs: "field b ''reason'' = JUndefined \<or> field b ''reason'' = JNull
             \<or> (\<exists>r. field b ''reason'' = JStr r \<and> length r \<le> 65535)"
    and calm: "faults w = []"
  shows "\<exists>w'. post_appointments b w = (Sent 201 (Message ''Appointment created''), w')
     \<and> Appointment (store w') = Appointment (store w) @
          [\<lparr>appoint_id = next_appoint_id (store w), ap_std_id = s, appointment_type = ty,
            professional_name = nm, appointment_date = dt, appointment_time = tm,
            status = ''Pending'',
            reason = (case field b ''reason'' of JStr r \<Rightarrow> Some r | _ \<Rightarrow> None),
            session_note = None\<rparr>]
     \<and> Notification (store w') = Notification (store w) @
          [\<lparr>n_id = next_n_id (store w), n_std_id = s,
            msg = ''Appointment booked with '' @ nm @ '' on '' @ ds @ '' at '' @ ts,
            is_read = 0, appointment_reminder = 1, mood_reminder = 0, habit_reminder = 0\<rparr>]
     \<and> Student (store w') = Student (store w) \<and> Habit (store w') = Habit (store w)
     \<and> Habit_Log (store w') = Habit_Log (store w)"
proof -
  have ds: "ds \<noteq> []" "length ds = 10"
    using dt(2) by (auto dest: read_date_length)
  have ts: "ts \<noteq> []" "length ts \<le> 8"
    using tm(2) by (auto dest: read_time_length)
  have len: "length (''Appointment booked with '' @ nm @ '' on '' @ ds @ '' at '' @ ts) \<le> 255"
    using nm ds ts by simp
  have reason: "bind_text_null (or_null (field b ''reason''))
      = Inr (case field b ''reason'' of JStr r \<Rightarrow> Some r | _ \<Rightarrow> None)"
    using rs by (auto simp: bind_text_null_def or_null_def)
  show ?thesis
    using std ty nm dt tm calm ds ts len reason
    by (simp add: post_appointments_def execute_calm insert_appointment_def
        insert_notification_def bind_int_def bind_varchar_def bind_date_def bind_time_def)
qed

theorem appointment_created_witness:
  "\<exists>w'. post_appointments
       [''std_id'' \<mapsto> JNum 101, ''appointment_type'' \<mapsto> JStr ''Counselor'',
        ''professional_name'' \<mapsto> JStr ''Dr. Rahman'',
        ''appointment_date'' \<mapsto> JStr ''2026-01-10'', ''appointment_time'' \<mapsto> JStr ''14:00'',
        ''reason'' \<mapsto> JStr ''Stress management''] (calm seed)
       = (Sent 201 (Message ''Appointment created''), w')
     \<and> Appointment (store w') =
         [\<lparr>appoint_id = 1, ap_std_id = 101, appointment_type = ''Counselor'',
           professional_name = ''Dr. Rahman'', appointment_date = (2026, 1, 10),
           appointment_time = (14, 0, 0), status = ''Pending'',
           reason = Some ''Stress management'', session_note = None\<rparr>]
     \<and> Notification (store w') = Notification seed @
         [\<lparr>n_id = 2, n_std_id = 101,
           msg = ''Appointment booked with Dr. Rahman on 2026-01-10 at 14:00'',
           is_read = 0, appointment_reminder = 1, mood_reminder = 0, habit_reminder = 0\<rparr>]"
  using appointment_created
    [where b = "[''std_id'' \<mapsto> JNum 101, ''appointment_type'' \<mapsto> JStr ''Counselor'',
        ''professional_name'' \<mapsto> JStr ''Dr. Rahman'',
        ''appointment_date'' \<mapsto> JStr ''2026-01-10'', ''appointment_time'' \<mapsto> JStr ''14:00'',
        ''reason'' \<mapsto> JStr ''Stress management'']"
      and s = 101 and ty = "''Counselor''" and nm = "''Dr. Rahman''" and ds = "''2026-01-10''"
      and dt = "(2026, 1, 10)" and ts = "''14:00''" and tm = "(14, 0, 0)"
      and w = "calm seed"]
  by (auto simp: evaluation)

text \<open>
  Claim C4 as written fails. With all five fields present, a student id 999 that no row
  of \<^verbatim>\<open>Student\<close> has makes the first INSERT fail on the foreign key: the answer is 500
  and no row is created. A student id 0 is present in the body and fails the test
  \<^verbatim>\<open>!std_id\<close>: the answer is 400.
\<close>

theorem appointment_created_counterexample:
  "post_appointments
     [''std_id'' \<mapsto> JNum 999, ''appointment_type'' \<mapsto> JStr ''Counselor'',
      ''professional_name'' \<mapsto> JStr ''Dr. Rahman'', ''appointment_date'' \<mapsto> JStr ''2026-01-10'',
      ''appointment_time'' \<mapsto> JStr ''14:00''] (calm seed)
     = (Sent 500 (Message ''Cannot add or update a child row: a foreign key constraint fails''),
        calm seed)
   \<and> post_appointments
     [''std_id'' \<mapsto> JNum 0, ''appointment_type'' \<mapsto> JStr ''Counselor'',
      ''professional_name'' \<mapsto> JStr ''Dr. Rahman'', ''appointment_date'' \<mapsto> JStr ''2026-01-10'',
      ''appointment_time'' \<mapsto> JStr ''14:00''] (calm seed)
     = (Sent 400 (Message ''Missing required appointment fields''), calm seed)"
  by (simp add: post_appointments_def insert_appointment_def evaluation)

text \<open>
  Claim C8. \<^verbatim>\<open>GET /appointments/:std_id\<close> answers 200 with exactly the appointments of
  that student, each once, the later date first and, on the same date, the later time
  first; for a student without appointments the list is empty. The store is taken to
  raise no failure of its own, and is not changed.
\<close>

theorem appointments_latest_first:
  assumes "faults w = []"
  shows "\<exists>rows. get_appointments s w = (Sent 200 (AppointmentRows rows), w)
     \<and> mset rows = mset (filter (\<lambda>r. ap_std_id r = s) (Appointment (store w)))
     \<and> sorted_wrt (\<lambda>a b. appointment_date b < appointment_date a
                        \<or> appointment_date b = appointment_date a
                          \<and> appointment_time b \<le> appointment_time a) rows
     \<and> (s \<notin> set (map ap_std_id (Appointment (store w))) \<longrightarrow> rows = [])"
proof -
  let ?mine = "filter (\<lambda>r. ap_std_id r = s) (Appointment (store w))"
  let ?k = "\<lambda>r. (appointment_date r, appointment_time r)"
  let ?rows = "order_by_desc ?k ?mine"
  have served: "get_appointments s w = (Sent 200 (AppointmentRows ?rows), w)"
    using assms
    by (simp add: get_appointments_def execute_calm select_appointments_def bind_int_def)
  have perm: "mset ?rows = mset ?mine"
    by (rule order_by_desc_mset)
  have "sorted_wrt (\<lambda>a b. ?k b \<le> ?k a) ?rows"
    by (rule order_by_desc_sorted)
  then have ordered: "sorted_wrt (\<lambda>a b. appointment_date b < appointment_date a
                        \<or> appointment_date b = appointment_date a
                          \<and> appointment_time b \<le> appointment_time a) ?rows"
    by (rule sorted_wrt_mono_rel [rotated]) auto
  have none: "s \<notin> set (map ap_std_id (Appointment (store w))) \<longrightarrow> ?rows = []"
  proof
    assume "s \<notin> set (map ap_std_id (Appointment (store w)))"
    then have "?mine = []" by (auto simp: filter_empty_conv)
    then show "?rows = []" by (simp add: order_by_desc_def)
  qed
  from served perm ordered none show ?thesis by blast
qed

theorem appointments_latest_first_witness:
  "get_appointments 102 (calm seed) = (Sent 200 (AppointmentRows []), calm seed)
   \<and> (\<exists>rows. fst (get_appointments 101 (calm (seed\<lparr>Appointment :=
         [\<lparr>appoint_id = 1, ap_std_id = 101, appointment_type = ''Counselor'',
           professional_name = ''Dr. Rahman'', appointment_date = (2026, 1, 10),
           appointment_time = (14, 0, 0), status = ''Pending'', reason = None,
           session_note = None\<rparr>,
          \<lparr>appoint_id = 2, ap_std_id = 101, appointment_type = ''Doctor'',
           professional_name = ''Dr. Karim'', appointment_date = (2026, 1, 12),
           appointment_time = (9, 30, 0), status = ''Approved'', reason = None,
           session_note = None\<rparr>,
          \<lparr>appoint_id = 3, ap_std_id = 101, appointment_type = ''Nutritionist'',
           professional_name = ''Ms. Sultana'', appointment_date = (2026, 1, 10),
           appointment_time = (16, 0, 0), status = ''Pending'', reason = None,
           session_note = None\<rparr>]\<rparr>))) = Sent 200 (AppointmentRows rows)
        \<and> map appoint_id rows = [2, 3, 1])"
proof -
  from appointments_latest_first [of "calm seed" 102]
  have "get_appointments 102 (calm seed) = (Sent 200 (AppointmentRows []), calm seed)"
    by (auto simp: calm_def seed_def)
  then show ?thesis
    by (simp add: get_appointments_def select_appointments_def order_by_desc_def evaluation)
qed

subsection \<open>The habit log\<close>

text \<open>
  Claim C1, amended. For a student id that is a number other than 0, a date
  \<^verbatim>\<open>YYYY-MM-DD\<close> and an array of habit ids that are all in the catalogue \<^verbatim>\<open>Habit\<close>, the
  student being registered unless the array is empty, and a store that raises no failure
  of its own: \<^verbatim>\<open>POST /habit-log\<close> answers 200, and \<^verbatim>\<open>GET /habit-log/:std_id\<close> for the
  same student and date then returns rows whose habit ids are, as a set, exactly the ids
  of the array.
\<close>

theorem habit_log_round_trip:
  assumes "field b ''std_id'' = JNum s" and "s \<noteq> 0"
    and "field b ''log_date'' = JStr d" and "read_date d = Some dt"
    and "field b ''habit_ids'' = JArr (map JNum hs)"
    and "hs = [] \<or> s \<in> set (map std_id (Student (store w)))"
    and "set hs \<subseteq> set (map habit_id (Habit (store w)))"
    and "faults w = []"
  shows "\<exists>w1 rows. post_habit_log b w = (Sent 200 (Message ''Habit log saved''), w1)
     \<and> get_habit_log today s (JStr d) w1 = (Sent 200 (HabitLogRows rows), w1)
     \<and> fst ` set rows = set hs"
proof -
  from post_habit_log_calm [OF assms] obtain w1 where
    saved: "post_habit_log b w = (Sent 200 (Message ''Habit log saved''), w1)"
    and calm: "faults w1 = []"
    and log: "Habit_Log (store w1) =
         filter (\<lambda>r. \<not> (hl_std_id r = s \<and> hl_log_date r = dt)) (Habit_Log (store w))
         @ new_rows s dt (next_log_id (store w)) hs"
    by blast
  let ?rows = "map (\<lambda>h. (h, 1::int)) hs"
  have "get_habit_log today s (JStr d) w1 = (Sent 200 (HabitLogRows ?rows), w1)"
    using get_habit_log_calm [OF calm assms(4), of today s]
    unfolding log replaced_mine new_rows_selected .
  moreover have "fst ` set ?rows = set hs" by force
  ultimately show ?thesis using saved by blast
qed

theorem habit_log_round_trip_witness:
  "\<exists>w1 rows.
     post_habit_log
       [''std_id'' \<mapsto> JNum 101, ''habit_ids'' \<mapsto> JArr [JNum 1, JNum 3],
        ''log_date'' \<mapsto> JStr ''2026-01-06''] (calm seed)
       = (Sent 200 (Message ''Habit log saved''), w1)
     \<and> get_habit_log ''2026-11-02'' 101 (JStr ''2026-01-06'') w1
       = (Sent 200 (HabitLogRows rows), w1)
     \<and> fst ` set rows = {1, 3}"
  using habit_log_round_trip
    [where b = "[''std_id'' \<mapsto> JNum 101, ''habit_ids'' \<mapsto> JArr [JNum 1, JNum 3],
                 ''log_date'' \<mapsto> JStr ''2026-01-06'']"
       and s = 101 and d = "''2026-01-06''" and dt = "(2026, 1, 6)" and hs = "[1, 3]"
       and w = "calm seed" and today = "''2026-11-02''"]
  by (simp add: field_def calm_def seed_def date_example)

text \<open>
  Claim C1 as written fails. The array \<^verbatim>\<open>[1, 99]\<close> names a habit 99 that the catalogue
  does not have: the second INSERT fails on the foreign key, the answer is 500, and the
  following GET returns habit 1 alone. With the student id 0 the POST answers 400 and
  stores nothing, so that the GET returns no row for the array \<^verbatim>\<open>[1]\<close>.
\<close>

theorem habit_log_round_trip_counterexample:
  "fst (post_habit_log
     [''std_id'' \<mapsto> JNum 101, ''habit_ids'' \<mapsto> JArr [JNum 1, JNum 99],
      ''log_date'' \<mapsto> JStr ''2026-01-06''] (calm seed))
     = Sent 500 (Message ''Cannot add or update a child row: a foreign key constraint fails'')
   \<and> fst (get_habit_log ''2026-11-02'' 101 (JStr ''2026-01-06'')
       (snd (post_habit_log
         [''std_id'' \<mapsto> JNum 101, ''habit_ids'' \<mapsto> JArr [JNum 1, JNum 99],
          ''log_date'' \<mapsto> JStr ''2026-01-06''] (calm seed))))
     = Sent 200 (HabitLogRows [(1, 1)])
   \<and> post_habit_log
     [''std_id'' \<mapsto> JNum 0, ''habit_ids'' \<mapsto> JArr [JNum 1],
      ''log_date'' \<mapsto> JStr ''2026-01-06''] (calm seed)
     = (Sent 400 (Message ''std_id, habit_ids[], and log_date are required''), calm seed)
   \<and> get_habit_log ''2026-11-02'' 0 (JStr ''2026-01-06'') (calm seed)
     = (Sent 200 (HabitLogRows []), calm seed)"
  by (simp add: post_habit_log_def get_habit_log_def delete_habit_log_def insert_habit_log_def
        select_habit_log_def evaluation)

text \<open>
  Claim C9. An empty array is accepted: for a student id that is a number other than 0
  and a date \<^verbatim>\<open>YYYY-MM-DD\<close>, \<^verbatim>\<open>POST /habit-log\<close> with \<^verbatim>\<open>habit_ids = []\<close> answers 200,
  leaves no row for that student and date, and the following GET returns the empty list.
  The witness is the example of the spec: student 101 on 2026-01-06 submits \<^verbatim>\<open>[1, 3]\<close>
  and then \<^verbatim>\<open>[]\<close>.
\<close>

theorem empty_submission_clears_day:
  assumes "field b ''std_id'' = JNum s" and "s \<noteq> 0"
    and "field b ''log_date'' = JStr d" and "read_date d = Some dt"
    and "field b ''habit_ids'' = JArr []"
    and "faults w = []"
  shows "\<exists>w1. post_habit_log b w = (Sent 200 (Message ''Habit log saved''), w1)
     \<and> filter (\<lambda>r. hl_std_id r = s \<and> hl_log_date r = dt) (Habit_Log (store w1)) = []
     \<and> get_habit_log today s (JStr d) w1 = (Sent 200 (HabitLogRows []), w1)"
proof -
  have "\<exists>w1. post_habit_log b w = (Sent 200 (Message ''Habit log saved''), w1)
     \<and> faults w1 = []
     \<and> Habit_Log (store w1) =
         filter (\<lambda>r. \<not> (hl_std_id r = s \<and> hl_log_date r = dt)) (Habit_Log (store w))
         @ new_rows s dt (next_log_id (store w)) []"
    using assms by (intro post_habit_log_calm) simp_all
  then obtain w1 where
    saved: "post_habit_log b w = (Sent 200 (Message ''Habit log saved''), w1)"
    and calm: "faults w1 = []"
    and log: "Habit_Log (store w1) =
         filter (\<lambda>r. \<not> (hl_std_id r = s \<and> hl_log_date r = dt)) (Habit_Log (store w))
         @ new_rows s dt (next_log_id (store w)) []"
    by blast
  have none: "filter (\<lambda>r. hl_std_id r = s \<and> hl_log_date r = dt) (Habit_Log (store w1)) = []"
    unfolding log replaced_mine by simp
  have "get_habit_log today s (JStr d) w1 = (Sent 200 (HabitLogRows []), w1)"
    using get_habit_log_calm [OF calm assms(4), of today s] unfolding none by simp
  with saved none show ?thesis by blast
qed

theorem empty_submission_clears_day_witness:
  "\<exists>w1 w2.
     post_habit_log
       [''std_id'' \<mapsto> JNum 101, ''habit_ids'' \<mapsto> JArr [JNum 1, JNum 3],
        ''log_date'' \<mapsto> JStr ''2026-01-06''] (calm seed)
       = (Sent 200 (Message ''Habit log saved''), w1)
     \<and> completed (store w1) 101 (2026, 1, 6) = [1, 3]
     \<and> post_habit_log
       [''std_id'' \<mapsto> JNum 101, ''habit_ids'' \<mapsto> JArr [], ''log_date'' \<mapsto> JStr ''2026-01-06''] w1
       = (Sent 200 (Message ''Habit log saved''), w2)
     \<and> get_habit_log ''2026-11-02'' 101 (JStr ''2026-01-06'') w2
       = (Sent 200 (HabitLogRows []), w2)"
proof -
  let ?w1 = "snd (post_habit_log
       [''std_id'' \<mapsto> JNum 101, ''habit_ids'' \<mapsto> JArr [JNum 1, JNum 3],
        ''log_date'' \<mapsto> JStr ''2026-01-06''] (calm seed))"
  have first: "post_habit_log
       [''std_id'' \<mapsto> JNum 101, ''habit_ids'' \<mapsto> JArr [JNum 1, JNum 3],
        ''log_date'' \<mapsto> JStr ''2026-01-06''] (calm seed)
       = (Sent 200 (Message ''Habit log saved''), ?w1)"
    and rows: "completed (store ?w1) 101 (2026, 1, 6) = [1, 3]"
    and calm: "faults ?w1 = []"
    by (simp_all add: post_habit_log_def delete_habit_log_def insert_habit_log_def
          completed_def evaluation)
  from empty_submission_clears_day
    [where b = "[''std_id'' \<mapsto> JNum 101, ''habit_ids'' \<mapsto> JArr [],
                 ''log_date'' \<mapsto> JStr ''2026-01-06'']"
       and s = 101 and d = "''2026-01-06''" and dt = "(2026, 1, 6)" and w = ?w1
       and today = "''2026-11-02''", OF _ _ _ date_example _ calm]
  obtain w2 where "post_habit_log
       [''std_id'' \<mapsto> JNum 101, ''habit_ids'' \<mapsto> JArr [], ''log_date'' \<mapsto> JStr ''2026-01-06''] ?w1
       = (Sent 200 (Message ''Habit log saved''), w2)"
     "get_habit_log ''2026-11-02'' 101 (JStr ''2026-01-06'') w2
       = (Sent 200 (HabitLogRows []), w2)"
    by (auto simp: field_def)
  with first rows show ?thesis by blast
qed

text \<open>
  Claim C2, amended. After any sequence of requests, the rows of \<^verbatim>\<open>Habit_Log\<close> for a
  student and a date carry exactly the habit ids of the most recent submission for that
  day, one row for each element of its array and in the array's order (and the rows that
  stood before the sequence when there was no such submission): no row is stale, and no
  two rows repeat a habit when the array repeats none. This holds unless the last word on
  that student and date was a \<^verbatim>\<open>POST /habit-log\<close> answered 500, with none for them
  answered 200 after it.
\<close>

theorem habit_log_holds_latest_submission:
  assumes "serve_all fw today rs w = (outs, w')"
    and "\<not> unsettled rs outs s dt False"
  shows "completed (store w') s dt = latest rs s dt (completed (store w) s dt)"
proof -
  have "completed (store w') s dt = latest rs s dt cur"
    if "serve_all fw today rs w = (outs, w')" and "\<not> unsettled rs outs s dt u"
      and "\<not> u \<Longrightarrow> completed (store w) s dt = cur" for w outs u cur
    using that
  proof (induction rs arbitrary: w outs u cur)
    case Nil
    then show ?case by auto
  next
    case (Cons r rs)
    obtain out w1 where step: "serve fw today r w = (out, w1)" by (cases "serve fw today r w")
    obtain outs1 w2 where rest: "serve_all fw today rs w1 = (outs1, w2)"
      by (cases "serve_all fw today rs w1")
    from Cons.prems(1) step rest have outs: "outs = out # outs1" and w': "w' = w2" by simp_all
    from rest w' have run: "serve_all fw today rs w1 = (outs1, w')" by simp
    have split: "latest (r # rs) s dt cur = latest rs s dt (latest [r] s dt cur)"
      by (rule latest_Cons)
    consider (broken) "targets r s dt" "interrupted r out"
      | (saved) "targets r s dt" "out = Sent 200 (Message ''Habit log saved'')"
          "\<not> interrupted r out"
      | (same) "\<not> (targets r s dt \<and> interrupted r out)"
          "\<not> (targets r s dt \<and> out = Sent 200 (Message ''Habit log saved''))"
      by blast
    then show ?case
    proof cases
      case broken
      with Cons.prems(2) outs have "\<not> unsettled rs outs1 s dt True" by simp
      from Cons.IH [OF run this, of "latest [r] s dt cur"] split show ?thesis by simp
    next
      case saved
      with Cons.prems(2) outs have settled: "\<not> unsettled rs outs1 s dt False" by simp
      from serve_step_saved [OF step saved(1,2)]
      have "completed (store w1) s dt = latest [r] s dt cur" .
      from Cons.IH [OF run settled this] split show ?thesis by simp
    next
      case same
      with Cons.prems(2) outs have carried: "\<not> unsettled rs outs1 s dt u" by auto
      from serve_step_same [OF step same]
      have kept: "completed (store w1) s dt = completed (store w) s dt"
        and skip: "latest [r] s dt cur = cur" by simp_all
      from kept Cons.prems(3) have "\<not> u \<Longrightarrow> completed (store w1) s dt = cur" by simp
      from Cons.IH [OF run carried this] split skip show ?thesis by simp
    qed
  qed
  from this [OF assms] show ?thesis by simp
qed

theorem habit_log_holds_latest_submission_witness:
  "\<not> unsettled
     [PostHabitLog [''std_id'' \<mapsto> JNum 101, ''habit_ids'' \<mapsto> JArr [JNum 1, JNum 3],
                    ''log_date'' \<mapsto> JStr ''2026-01-06''],
      PostHabitLog [''std_id'' \<mapsto> JNum 101, ''habit_ids'' \<mapsto> JArr [JNum 4, JNum 99],
                    ''log_date'' \<mapsto> JStr ''2026-01-06''],
      PostHabitLog [''std_id'' \<mapsto> JNum 101, ''habit_ids'' \<mapsto> JArr [JNum 2, JNum 5],
                    ''log_date'' \<mapsto> JStr ''2026-01-06''],
      PostHabitLog [''std_id'' \<mapsto> JNum 101, ''habit_ids'' \<mapsto> JArr [JNum 99],
                    ''log_date'' \<mapsto> JStr ''2026-01-07'']]
     (fst (serve_all error_page ''2026-11-02''
       [PostHabitLog [''std_id'' \<mapsto> JNum 101, ''habit_ids'' \<mapsto> JArr [JNum 1, JNum 3],
                      ''log_date'' \<mapsto> JStr ''2026-01-06''],
        PostHabitLog [''std_id'' \<mapsto> JNum 101, ''habit_ids'' \<mapsto> JArr [JNum 4, JNum 99],
                      ''log_date'' \<mapsto> JStr ''2026-01-06''],
        PostHabitLog [''std_id'' \<mapsto> JNum 101, ''habit_ids'' \<mapsto> JArr [JNum 2, JNum 5],
                      ''log_date'' \<mapsto> JStr ''2026-01-06''],
        PostHabitLog [''std_id'' \<mapsto> JNum 101, ''habit_ids'' \<mapsto> JArr [JNum 99],
                      ''log_date'' \<mapsto> JStr ''2026-01-07'']]
       (calm seed))) 101 (2026, 1, 6) False
   \<and> completed (store (snd (serve_all error_page ''2026-11-02''
       [PostHabitLog [''std_id'' \<mapsto> JNum 101, ''habit_ids'' \<mapsto> JArr [JNum 1, JNum 3],
                      ''log_date'' \<mapsto> JStr ''2026-01-06''],
        PostHabitLog [''std_id'' \<mapsto> JNum 101, ''habit_ids'' \<mapsto> JArr [JNum 4, JNum 99],
                      ''log_date'' \<mapsto> JStr ''2026-01-06''],
        PostHabitLog [''std_id'' \<mapsto> JNum 101, ''habit_ids'' \<mapsto> JArr [JNum 2, JNum 5],
                      ''log_date'' \<mapsto> JStr ''2026-01-06''],
        PostHabitLog [''std_id'' \<mapsto> JNum 101, ''habit_ids'' \<mapsto> JArr [JNum 99],
                      ''log_date'' \<mapsto> JStr ''2026-01-07'']]
       (calm seed)))) 101 (2026, 1, 6) = [2, 5]"
proof -
  let ?rs = "[PostHabitLog [''std_id'' \<mapsto> JNum 101, ''habit_ids'' \<mapsto> JArr [JNum 1, JNum 3],
                      ''log_date'' \<mapsto> JStr ''2026-01-06''],
        PostHabitLog [''std_id'' \<mapsto> JNum 101, ''habit_ids'' \<mapsto> JArr [JNum 4, JNum 99],
                      ''log_date'' \<mapsto> JStr ''2026-01-06''],
        PostHabitLog [''std_id'' \<mapsto> JNum 101, ''habit_ids'' \<mapsto> JArr [JNum 2, JNum 5],
                      ''log_date'' \<mapsto> JStr ''2026-01-06''],
        PostHabitLog [''std_id'' \<mapsto> JNum 101, ''habit_ids'' \<mapsto> JArr [JNum 99],
                      ''log_date'' \<mapsto> JStr ''2026-01-07'']]"
  let ?run = "serve_all error_page ''2026-11-02'' ?rs (calm seed)"
  have pair: "?run = (fst ?run, snd ?run)" by simp
  have ok: "\<not> unsettled ?rs (fst ?run) 101 (2026, 1, 6) False"
    by (simp add: post_habit_log_def delete_habit_log_def insert_habit_log_def evaluation)
  have "latest ?rs 101 (2026, 1, 6) (completed (store (calm seed)) 101 (2026, 1, 6)) = [2, 5]"
    by (simp add: submission_def field_def read_date_def digit_def days_in_month_def leap_def)
  with habit_log_holds_latest_submission [OF pair ok] ok
  show ?thesis by simp
qed

text \<open>
  Claim C2 as written fails. The loop inserts one row for each element of the array, and
  no key of \<^verbatim>\<open>Habit_Log\<close> forbids a second row for the same student, habit and date: the
  array \<^verbatim>\<open>[1, 1]\<close> is answered 200 and leaves two such rows.
\<close>

theorem duplicate_rows_counterexample:
  "fst (post_habit_log
     [''std_id'' \<mapsto> JNum 101, ''habit_ids'' \<mapsto> JArr [JNum 1, JNum 1],
      ''log_date'' \<mapsto> JStr ''2026-01-06''] (calm seed))
     = Sent 200 (Message ''Habit log saved'')
   \<and> Habit_Log (store (snd (post_habit_log
     [''std_id'' \<mapsto> JNum 101, ''habit_ids'' \<mapsto> JArr [JNum 1, JNum 1],
      ''log_date'' \<mapsto> JStr ''2026-01-06''] (calm seed))))
     = [\<lparr>hl_log_id = 1, hl_std_id = 101, hl_habit_id = 1, hl_log_date = (2026, 1, 6),
         hl_completed = 1\<rparr>,
        \<lparr>hl_log_id = 2, hl_std_id = 101, hl_habit_id = 1, hl_log_date = (2026, 1, 6),
         hl_completed = 1\<rparr>]"
  by (simp add: post_habit_log_def delete_habit_log_def insert_habit_log_def evaluation)

end
